theory Spec2Isabelle
  imports Main
begin

section \<open>Data model of the message store\<close>

text \<open>
  The envelope \<open>StoredMessage\<close> as \<open>messageStore.ts\<close> uses it: the durable record of one
  message. Timestamps are the integer milliseconds of \<open>Date.now()\<close>. The field \<open>id\<close> of
  the source is written \<open>id'\<close>.
\<close>

record StoredMessage =
  id' :: string
  conversationId :: string
  senderId :: string
  recipientId :: string
  ciphertext :: string
  timestamp :: int
  synced :: bool
  read :: bool

datatype MessageSyncStatus = SyncPending | SyncSynced | SyncFailed

text \<open>\<open>interface MessageWithMeta extends StoredMessage\<close>.\<close>

record MessageWithMeta = StoredMessage +
  syncStatus :: MessageSyncStatus
  retryCount :: nat
  lastRetryAt :: "int option"

text \<open>
  The argument of \<open>updateMessage\<close>,
  \<open>Partial<Pick<StoredMessage, 'ciphertext' | 'read' | 'synced'>>\<close>: each of the three
  keys is present (\<open>Some\<close>) or absent (\<open>None\<close>). A key that is present with the value
  \<open>undefined\<close> is left out of the model.
\<close>

record MessageUpdates =
  ciphertext_u :: "string option"
  read_u :: "bool option"
  synced_u :: "bool option"

subsection \<open>The persistence boundary\<close>

text \<open>
  The object store of messages, keyed by \<open>id\<close>. The table is the list of its records.
\<close>

type_synonym message_table = "StoredMessage list"

text \<open>\<open>store.get(messageId)\<close> as \<open>getMessage\<close> calls it; \<open>request.result || null\<close>.\<close>

definition db_get :: "string \<Rightarrow> message_table \<Rightarrow> StoredMessage option" where
  "db_get k t = find (\<lambda>m. id' m = k) t"

text \<open>\<open>store.delete(messageId)\<close> as \<open>deleteMessage\<close> calls it.\<close>

definition db_delete :: "string \<Rightarrow> message_table \<Rightarrow> message_table" where
  "db_delete k t = filter (\<lambda>m. id' m \<noteq> k) t"

text \<open>
  Modelled from the spec: \<open>storeMessage\<close> of \<open>./indexeddb\<close>, which is not among the source
  files. The spec's persistence boundary is "a keyed record store supporting
  get/put/delete/getAll per logical table": a put replaces the record that has the
  same key and adds the record otherwise. \<open>updateMessage\<close> stores the updated record
  under its existing key through it.
\<close>

fun storeMessage :: "StoredMessage \<Rightarrow> message_table \<Rightarrow> message_table" where
  "storeMessage m [] = [m]"
| "storeMessage m (x # t) = (if id' x = id' m then m # t else x # storeMessage m t)"

text \<open>
  Modelled from the spec: \<open>getMessages\<close> of \<open>./indexeddb\<close>, which is not among the source
  files. The spec has "pagination by (conversationId, limit, beforeTimestamp?)",
  "newest-page-first": the messages of the conversation, those older than
  \<open>beforeTimestamp\<close> when it is given, newest first, at most \<open>limit\<close> of them.
\<close>

definition getMessages :: "string \<Rightarrow> nat \<Rightarrow> int option \<Rightarrow> message_table \<Rightarrow> StoredMessage list" where
  "getMessages conv limit beforeTimestamp t =
     take limit (sort_key (\<lambda>m. - timestamp m)
       (filter (\<lambda>m. conversationId m = conv \<and>
                     (case beforeTimestamp of None \<Rightarrow> True | Some b \<Rightarrow> timestamp m < b)) t))"

text \<open>
  Modelled from the spec: \<open>getUnsyncedMessages\<close> of \<open>./indexeddb\<close>, which is not among the
  source files: the envelopes with \<open>synced:false\<close>.
\<close>

definition getUnsyncedMessages :: "message_table \<Rightarrow> StoredMessage list" where
  "getUnsyncedMessages t = filter (\<lambda>m. \<not> synced m) t"

text \<open>
  Modelled from the spec: \<open>markMessageSynced\<close> of \<open>./indexeddb\<close>, which is not among the
  source files: "mark it synced", and "updates may only touch synced/read". A key that
  is not stored is left alone.
\<close>

definition markMessageSynced :: "string \<Rightarrow> message_table \<Rightarrow> message_table" where
  "markMessageSynced k t =
     (case db_get k t of None \<Rightarrow> t | Some m \<Rightarrow> storeMessage (m\<lparr>synced := True\<rparr>) t)"

section \<open>MessageStoreManager\<close>

text \<open>
  The singleton \<open>messageStore\<close>. \<open>syncInterval\<close> is the handle of the 30 s interval timer,
  here whether it is set. \<open>db\<close> is the object store the manager reads and writes.
\<close>

record MessageStoreManager =
  initialized :: bool
  pendingSync :: "string \<rightharpoonup> MessageWithMeta"
  syncInterval :: bool
  db :: message_table

definition startSyncMonitor :: "MessageStoreManager \<Rightarrow> MessageStoreManager" where
  "startSyncMonitor s = (if syncInterval s then s else s\<lparr>syncInterval := True\<rparr>)"

definition init :: "MessageStoreManager \<Rightarrow> MessageStoreManager" where
  "init s = (if initialized s then s else startSyncMonitor (s\<lparr>initialized := True\<rparr>))"

definition withMeta :: "StoredMessage \<Rightarrow> MessageWithMeta" where
  "withMeta m = StoredMessage.extend m
     (MessageWithMeta.fields SyncPending 0 None)"

text \<open>\<open>saveMessage\<close>: \<open>{...message, synced: false, read: false}\<close>, stored and tracked.\<close>

definition saveMessage :: "StoredMessage \<Rightarrow> MessageStoreManager \<Rightarrow> MessageStoreManager \<times> StoredMessage" where
  "saveMessage message s =
     (let s1 = init s;
          fullMessage = message\<lparr>synced := False, read := False\<rparr>;
          s2 = s1\<lparr>db := storeMessage fullMessage (db s1)\<rparr>;
          s3 = s2\<lparr>pendingSync := (pendingSync s2)(id' message \<mapsto> withMeta fullMessage)\<rparr>
      in (s3, fullMessage))"

definition getMessage :: "string \<Rightarrow> MessageStoreManager \<Rightarrow> MessageStoreManager \<times> StoredMessage option" where
  "getMessage messageId s = (let s1 = init s in (s1, db_get messageId (db s1)))"

text \<open>\<open>{...message, ...updates}\<close>: a key present in \<open>updates\<close> replaces the stored one.\<close>

definition applyUpdates :: "StoredMessage \<Rightarrow> MessageUpdates \<Rightarrow> StoredMessage" where
  "applyUpdates message updates =
     message\<lparr>ciphertext := (case ciphertext_u updates of None \<Rightarrow> ciphertext message | Some c \<Rightarrow> c),
             read := (case read_u updates of None \<Rightarrow> read message | Some r \<Rightarrow> r),
             synced := (case synced_u updates of None \<Rightarrow> synced message | Some y \<Rightarrow> y)\<rparr>"

definition updateMessage ::
  "string \<Rightarrow> MessageUpdates \<Rightarrow> MessageStoreManager \<Rightarrow> MessageStoreManager \<times> StoredMessage option" where
  "updateMessage messageId updates s =
     (let s1 = init s;
          (s2, message) = getMessage messageId s1
      in case message of
           None \<Rightarrow> (s2, None)
         | Some m \<Rightarrow>
             (let updated = applyUpdates m updates
              in (s2\<lparr>db := storeMessage updated (db s2)\<rparr>, Some updated)))"

definition deleteMessage :: "string \<Rightarrow> MessageStoreManager \<Rightarrow> MessageStoreManager \<times> bool" where
  "deleteMessage messageId s = (let s1 = init s in (s1\<lparr>db := db_delete messageId (db s1)\<rparr>, True))"

text \<open>The loop of \<open>deleteConversationMessages\<close> over the retrieved messages.\<close>

fun deleteLoop :: "StoredMessage list \<Rightarrow> MessageStoreManager \<times> nat \<Rightarrow> MessageStoreManager \<times> nat" where
  "deleteLoop [] (s, deletedCount) = (s, deletedCount)"
| "deleteLoop (msg # messages) (s, deletedCount) =
     deleteLoop messages (fst (deleteMessage (id' msg) s), deletedCount + 1)"

definition deleteConversationMessages :: "string \<Rightarrow> MessageStoreManager \<Rightarrow> MessageStoreManager \<times> nat" where
  "deleteConversationMessages conv s =
     (let s1 = init s;
          messages = getMessages conv 10000 None (db s1)
      in deleteLoop messages (s1, 0))"

definition readUpdate :: MessageUpdates where
  "readUpdate = \<lparr>ciphertext_u = None, read_u = Some True, synced_u = None\<rparr>"

definition markAsRead :: "string \<Rightarrow> MessageStoreManager \<Rightarrow> MessageStoreManager" where
  "markAsRead messageId s = fst (updateMessage messageId readUpdate s)"

fun markReadLoop :: "StoredMessage list \<Rightarrow> MessageStoreManager \<Rightarrow> MessageStoreManager" where
  "markReadLoop [] s = s"
| "markReadLoop (msg # messages) s =
     markReadLoop messages
       (if \<not> read msg then fst (updateMessage (id' msg) readUpdate s) else s)"

definition markConversationAsRead :: "string \<Rightarrow> MessageStoreManager \<Rightarrow> MessageStoreManager" where
  "markConversationAsRead conv s =
     (let s1 = init s;
          messages = getMessages conv 10000 None (db s1)
      in markReadLoop messages s1)"

definition markSynced :: "string \<Rightarrow> MessageStoreManager \<Rightarrow> MessageStoreManager" where
  "markSynced messageId s =
     s\<lparr>db := markMessageSynced messageId (db s),
       pendingSync := (pendingSync s)(messageId := None)\<rparr>"

definition getUnsynced :: "MessageStoreManager \<Rightarrow> MessageStoreManager \<times> StoredMessage list" where
  "getUnsynced s = (let s1 = init s in (s1, getUnsyncedMessages (db s1)))"

fun importLoop :: "StoredMessage list \<Rightarrow> MessageStoreManager \<times> nat \<Rightarrow> MessageStoreManager \<times> nat" where
  "importLoop [] (s, importedCount) = (s, importedCount)"
| "importLoop (msg # messages) (s, importedCount) =
     (let (s1, existing) = getMessage (id' msg) s
      in case existing of
           None \<Rightarrow> importLoop messages
                    (s1\<lparr>db := storeMessage (msg\<lparr>synced := True\<rparr>) (db s1)\<rparr>, importedCount + 1)
         | Some e \<Rightarrow> importLoop messages (s1, importedCount))"

definition importMessages :: "StoredMessage list \<Rightarrow> MessageStoreManager \<Rightarrow> MessageStoreManager \<times> nat" where
  "importMessages messages s = importLoop messages (init s, 0)"

definition getMessageCount :: "string \<Rightarrow> MessageStoreManager \<Rightarrow> nat" where
  "getMessageCount conv s = length (getMessages conv 10000 None (db s))"

definition getUnreadCount :: "string \<Rightarrow> MessageStoreManager \<Rightarrow> nat" where
  "getUnreadCount conv s = length (filter (\<lambda>m. \<not> read m) (getMessages conv 10000 None (db s)))"


section \<open>The protocol\<close>

datatype ConnectionState = Disconnected | Connecting | Connected | Reconnecting

record EncryptedMessagePayload =
  conversationId_p :: string
  senderId_p :: string
  recipientId_p :: string
  ciphertext_p :: string
  timestamp_p :: int

record KeyRequestPayload =
  requesterId :: string
  targetUserId :: string

record KeyResponsePayload =
  userId :: string
  publicKey :: string
  fingerprint :: string

datatype MessageStatus = Sending | Sent | Delivered

text \<open>The payload of the \<open>message_ack\<close> frame that \<open>handleEncryptedMessage\<close> builds.\<close>

record MessageAckPayload =
  messageId_a :: string
  conversationId_a :: string
  status_a :: MessageStatus

text \<open>
  The frames that the functions below give to \<open>client.send(type, payload)\<close>, one
  constructor per type: \<open>message\<close>, \<open>message_ack\<close> and \<open>key_request\<close>.
\<close>

datatype ProtocolFrame =
    MessageFrame EncryptedMessagePayload
  | MessageAckFrame MessageAckPayload
  | KeyRequestFrame KeyRequestPayload

text \<open>The UI-facing \<open>Message\<close> of \<open>@/lib/chat/types\<close>, with the fields the handler sets.\<close>

record Message =
  id_m :: string
  conversationId_m :: string
  senderId_m :: string
  content :: string
  timestamp_m :: int
  status :: MessageStatus
  isEncrypted :: bool

subsection \<open>The crypto boundary\<close>

text \<open>
  A thrown value: an \<open>Error\<close> with its message, or a value that is not an \<open>Error\<close>.
\<close>

datatype thrown = Error string | NonError

record KeyPair =
  publicKeyRaw :: string
  fingerprint_k :: string

record SecureSession =
  sessionId :: string
  createdAt :: int

text \<open>The argument \<open>decryptSessionMessage\<close> is called with.\<close>

record SecureMessagePayload =
  sessionId_s :: string
  senderId_s :: string
  recipientId_s :: string
  ciphertext_s :: string
  timestamp_s :: int

text \<open>
  The primitives of \<open>@/lib/crypto\<close> are not among the source files and are parameters
  of the handler: each either throws or returns. \<open>encryptSessionMessage\<close> gives the
  \<open>encrypted.encrypted.ciphertext\<close> of its result, \<open>decryptSessionMessage\<close> the
  \<open>plaintext\<close>.
\<close>

record crypto =
  establishSecureSession :: "KeyPair \<Rightarrow> string \<Rightarrow> string \<Rightarrow> thrown + SecureSession"
  encryptSessionMessage :: "SecureSession \<Rightarrow> string \<Rightarrow> string \<Rightarrow> string \<Rightarrow> thrown + string"
  decryptSessionMessage :: "SecureSession \<Rightarrow> SecureMessagePayload \<Rightarrow> thrown + string"

subsection \<open>Decimal text of a number\<close>

text \<open>
  The template literals \<open>`msg-${Date.now()}`\<close> and \<open>`msg-${payload.timestamp}`\<close> print an
  integer in decimal, with a minus sign when it is negative.
\<close>

function show_nat :: "nat \<Rightarrow> string" where
  "show_nat n = (if n < 10 then [''0123456789'' ! n]
                 else show_nat (n div 10) @ [''0123456789'' ! (n mod 10)])"
  by pat_completeness auto
termination
  by (relation "measure (\<lambda>n. n)") auto

declare show_nat.simps [simp del]

definition show_int :: "int \<Rightarrow> string" where
  "show_int i = (if i < 0 then CHR ''-'' # show_nat (nat (- i)) else show_nat (nat i))"


section \<open>MessageHandler\<close>

subsection \<open>State\<close>

text \<open>
  Modelled from the spec: \<open>WebSocketClient\<close> of \<open>./client\<close>, which is not among the
  source files. It holds the single authoritative connection state, and
  \<open>send(type, payload) -> bool\<close> "returns whether transmission was attempted";
  "send attempts while not connected fail fast (return false)".
\<close>

record WebSocketClient =
  state :: ConnectionState

definition send :: "ProtocolFrame \<Rightarrow> WebSocketClient \<Rightarrow> bool" where
  "send f c = (state c = Connected)"

text \<open>
  Which of the optional callbacks of \<open>MessageHandlerCallbacks\<close> are set, for the callbacks
  that the functions below call.
\<close>

record MessageHandlerCallbacks =
  onMessage :: bool
  onConnectionChange :: bool
  onSessionEstablished :: bool
  onError :: bool

text \<open>A call of a callback with its arguments; of \<open>onError\<close>, the message of the error.\<close>

datatype ui_event =
    OnMessage Message
  | OnConnectionChange ConnectionState
  | OnSessionEstablished string
  | OnError string

text \<open>
  What the handler does to the outside, in the order it does it: an envelope handed to
  \<open>messageStore.saveMessage\<close>, a call of \<open>client.send\<close> with its result, a call of a
  callback that is set.
\<close>

datatype effect =
    Persist StoredMessage
  | Send ProtocolFrame bool
  | Callback ui_event

datatype 'a promise = PromisePending | Fulfilled 'a | Rejected thrown

text \<open>
  One call of \<open>requestPublicKey\<close>: the promise it returns, the timer \<open>setTimeout\<close> gave it
  (its deadline, and whether it is still set: neither fired nor cleared), the target
  that its two closures captured, and the call of \<open>handleEncryptedMessage\<close> that awaits
  the promise, as the payload it will go on with.
\<close>

record KeyRequest =
  target :: string
  deadline :: int
  timerActive :: bool
  promise :: "KeyResponsePayload promise"
  awaiting :: "EncryptedMessagePayload option"

record StoredSession =
  id_ss :: string
  peerId :: string
  peerPublicKey :: string
  peerFingerprint :: string
  createdAt_ss :: int
  lastActivity :: int

text \<open>
  The fields of the class (\<open>client\<close>, \<open>myKeyPair\<close>, \<open>myUserId\<close>, \<open>sessions\<close>,
  \<open>pendingKeyRequests\<close>, \<open>callbacks\<close>) and the world it acts on: the singleton
  \<open>messageStore\<close>, the sessions given to \<open>sessionStore.saveSession\<close>, the calls of
  \<open>requestPublicKey\<close> made so far (a resolver stored in \<open>pendingKeyRequests\<close> is the index
  of its call), the clock \<open>Date.now()\<close> and the effects so far.
\<close>

record MessageHandler =
  client :: WebSocketClient
  myKeyPair :: "KeyPair option"
  myUserId :: string
  sessions :: "string \<rightharpoonup> SecureSession"
  pendingKeyRequests :: "string \<rightharpoonup> nat"
  callbacks :: MessageHandlerCallbacks
  store :: MessageStoreManager
  savedSessions :: "StoredSession list"
  keyRequests :: "KeyRequest list"
  now :: int
  trace :: "effect list"

subsection \<open>Effects\<close>

text \<open>\<open>this.client.send(type, payload)\<close>.\<close>

definition clientSend :: "ProtocolFrame \<Rightarrow> MessageHandler \<Rightarrow> MessageHandler \<times> bool" where
  "clientSend f h =
     (let ok = send f (client h) in (h\<lparr>trace := trace h @ [Send f ok]\<rparr>, ok))"

text \<open>\<open>this.callbacks.onX?.(...)\<close>: the call is made when the callback is set.\<close>

definition notify :: "(MessageHandlerCallbacks \<Rightarrow> bool) \<Rightarrow> ui_event \<Rightarrow> MessageHandler \<Rightarrow> MessageHandler" where
  "notify cb ev h = (if cb (callbacks h) then h\<lparr>trace := trace h @ [Callback ev]\<rparr> else h)"

text \<open>
  \<open>await messageStore.saveMessage({...})\<close>. The object the handler passes has no \<open>synced\<close>
  and no \<open>read\<close>; \<open>saveMessage\<close> sets both.
\<close>

definition newEnvelope :: "string \<Rightarrow> string \<Rightarrow> string \<Rightarrow> string \<Rightarrow> string \<Rightarrow> int \<Rightarrow> StoredMessage" where
  "newEnvelope i c sid rid ct ts =
     \<lparr>id' = i, conversationId = c, senderId = sid, recipientId = rid, ciphertext = ct,
      timestamp = ts, synced = False, read = False\<rparr>"

definition persist :: "StoredMessage \<Rightarrow> MessageHandler \<Rightarrow> MessageHandler" where
  "persist m h =
     (let (s', fullMessage) = saveMessage m (store h)
      in h\<lparr>store := s', trace := trace h @ [Persist fullMessage]\<rparr>)"

text \<open>
  The \<open>catch\<close> of \<open>handleEncryptedMessage\<close>:
  \<open>onError?.(error instanceof Error ? error : new Error('Decryption failed'))\<close>.
\<close>

definition catchBlock :: "thrown \<Rightarrow> MessageHandler \<Rightarrow> MessageHandler" where
  "catchBlock e h =
     notify onError (OnError (case e of Error msg \<Rightarrow> msg | NonError \<Rightarrow> ''Decryption failed'')) h"

subsection \<open>Key requests\<close>

text \<open>
  \<open>requestPublicKey\<close>: the executor of the new promise sets the timer, stores the
  resolver under the target and sends the \<open>key_request\<close>. The result is the state and
  the index of this call, which stands for the promise returned.
\<close>

definition requestPublicKey :: "string \<Rightarrow> MessageHandler \<Rightarrow> MessageHandler \<times> nat" where
  "requestPublicKey u h =
     (let r = length (keyRequests h);
          h1 = h\<lparr>keyRequests := keyRequests h @
                  [\<lparr>target = u, deadline = now h + 10000, timerActive = True,
                    promise = PromisePending, awaiting = None\<rparr>]\<rparr>;
          h2 = h1\<lparr>pendingKeyRequests := (pendingKeyRequests h1)(u \<mapsto> r)\<rparr>;
          (h3, ok) = clientSend (KeyRequestFrame \<lparr>requesterId = myUserId h2, targetUserId = u\<rparr>) h2
      in (h3, r))"

text \<open>\<open>await\<close> on the promise of call \<open>r\<close> inside \<open>handleEncryptedMessage\<close>.\<close>

definition awaitKey :: "nat \<Rightarrow> EncryptedMessagePayload \<Rightarrow> MessageHandler \<Rightarrow> MessageHandler" where
  "awaitKey r payload h =
     h\<lparr>keyRequests := (keyRequests h)[r := (keyRequests h ! r)\<lparr>awaiting := Some payload\<rparr>]\<rparr>"

text \<open>
  A promise settles once: \<open>resolve\<close> and \<open>reject\<close> on a settled promise do nothing. The
  result says whether this call settled it.
\<close>

definition settle :: "nat \<Rightarrow> KeyResponsePayload promise \<Rightarrow> MessageHandler \<Rightarrow> MessageHandler \<times> bool" where
  "settle r outcome h =
     (if r < length (keyRequests h) \<and> promise (keyRequests h ! r) = PromisePending
      then (h\<lparr>keyRequests := (keyRequests h)[r := (keyRequests h ! r)\<lparr>promise := outcome\<rparr>]\<rparr>, True)
      else (h, False))"

text \<open>
  The rest of \<open>handleEncryptedMessage\<close> after its \<open>await this.requestPublicKey(...)\<close>, run
  when the promise has settled: on a key response the envelope is saved under
  \<open>`msg-${Date.now()}`\<close>; on a rejection control goes to the \<open>catch\<close>.
\<close>

definition resume :: "nat \<Rightarrow> MessageHandler \<Rightarrow> MessageHandler" where
  "resume r h =
     (if r < length (keyRequests h) then
        (case awaiting (keyRequests h ! r) of
           None \<Rightarrow> h
         | Some payload \<Rightarrow>
             (case promise (keyRequests h ! r) of
                PromisePending \<Rightarrow> h
              | Fulfilled response \<Rightarrow>
                  persist (newEnvelope (''msg-'' @ show_int (now h)) (conversationId_p payload)
                             (senderId_p payload) (myUserId h) (ciphertext_p payload)
                             (timestamp_p payload)) h
              | Rejected e \<Rightarrow> catchBlock e h))
      else h)"

definition clearTimeout :: "nat \<Rightarrow> MessageHandler \<Rightarrow> MessageHandler" where
  "clearTimeout r h =
     (if r < length (keyRequests h)
      then h\<lparr>keyRequests := (keyRequests h)[r := (keyRequests h ! r)\<lparr>timerActive := False\<rparr>]\<rparr>
      else h)"

text \<open>
  The callback of the timer of call \<open>r\<close>, for a call that was made. The timer has
  fired, so it is no longer set; then
  \<open>this.pendingKeyRequests.delete(userId); reject(new Error('Key request timeout'))\<close>,
  and then whoever awaits the promise goes on.
\<close>

definition timeoutCallback :: "nat \<Rightarrow> MessageHandler \<Rightarrow> MessageHandler" where
  "timeoutCallback r h =
     (if r < length (keyRequests h) then
        (let h1 = clearTimeout r h;
             h2 = h1\<lparr>pendingKeyRequests := (pendingKeyRequests h1)(target (keyRequests h1 ! r) := None)\<rparr>;
             (h3, settled) = settle r (Rejected (Error ''Key request timeout'')) h2
         in if settled then resume r h3 else h3)
      else h)"

text \<open>
  \<open>handleKeyResponse\<close>: the resolver found under \<open>payload.userId\<close> is called
  (\<open>clearTimeout(timeout); resolve(response)\<close>), the entry is deleted, and then whoever
  awaits the promise goes on.
\<close>

definition handleKeyResponse :: "KeyResponsePayload \<Rightarrow> MessageHandler \<Rightarrow> MessageHandler" where
  "handleKeyResponse payload h =
     (case pendingKeyRequests h (userId payload) of
        None \<Rightarrow> h
      | Some r \<Rightarrow>
          (let h1 = clearTimeout r h;
               (h2, settled) = settle r (Fulfilled payload) h1;
               h3 = h2\<lparr>pendingKeyRequests := (pendingKeyRequests h2)(userId payload := None)\<rparr>
           in if settled then resume r h3 else h3))"

text \<open>
  Time passes: the clock moves on by \<open>ms\<close> and every timer that is set and due fires, in
  the order the timers were created (they all have the same delay).
\<close>

fun fireTimers :: "nat list \<Rightarrow> MessageHandler \<Rightarrow> MessageHandler" where
  "fireTimers [] h = h"
| "fireTimers (r # rs) h =
     fireTimers rs
       (if r < length (keyRequests h) \<and> timerActive (keyRequests h ! r)
           \<and> deadline (keyRequests h ! r) \<le> now h
        then timeoutCallback r h else h)"

definition advanceTime :: "nat \<Rightarrow> MessageHandler \<Rightarrow> MessageHandler" where
  "advanceTime ms h =
     (let h1 = h\<lparr>now := now h + int ms\<rparr>
      in fireTimers [0 ..< length (keyRequests h1)] h1)"


subsection \<open>Sessions and sending\<close>

text \<open>
  Modelled from the spec: \<open>storeSession\<close> of \<open>./indexeddb\<close>, which is not among the source
  files, as \<open>sessionStore.saveSession\<close> calls it: a put into the table of sessions,
  keyed by the session's \<open>id\<close>.
\<close>

fun storeSession :: "StoredSession \<Rightarrow> StoredSession list \<Rightarrow> StoredSession list" where
  "storeSession x [] = [x]"
| "storeSession x (y # t) = (if id_ss y = id_ss x then x # t else y # storeSession x t)"

definition establishSession ::
  "crypto \<Rightarrow> string \<Rightarrow> string \<Rightarrow> string \<Rightarrow> MessageHandler \<Rightarrow> MessageHandler \<times> (thrown + SecureSession)" where
  "establishSession cr peer pk fp h =
     (case myKeyPair h of
        None \<Rightarrow> (h, Inl (Error ''No key pair available''))
      | Some kp \<Rightarrow>
          (case establishSecureSession cr kp pk fp of
             Inl e \<Rightarrow> (h, Inl e)
           | Inr session \<Rightarrow>
               (let h1 = h\<lparr>sessions := (sessions h)(peer \<mapsto> session)\<rparr>;
                    h2 = h1\<lparr>savedSessions := storeSession
                            \<lparr>id_ss = sessionId session, peerId = peer, peerPublicKey = pk,
                             peerFingerprint = fp, createdAt_ss = createdAt session,
                             lastActivity = now h1\<rparr> (savedSessions h1)\<rparr>;
                    h3 = notify onSessionEstablished (OnSessionEstablished peer) h2
                in (h3, Inr session))))"

text \<open>
  \<open>sendMessage\<close>. \<open>rnd\<close> is the text of \<open>Math.random().toString(36).slice(2)\<close>. The result
  is the state and either what was thrown or the \<open>Message\<close> returned.
\<close>

definition sendMessage ::
  "crypto \<Rightarrow> string \<Rightarrow> string \<Rightarrow> string \<Rightarrow> string \<Rightarrow> string \<Rightarrow> string \<Rightarrow> MessageHandler
     \<Rightarrow> MessageHandler \<times> (thrown + Message)" where
  "sendMessage cr rnd recipient conv content' pk fp h =
     (if myKeyPair h = None \<or> myUserId h = [] then (h, Inl (Error ''Handler not initialized''))
      else
        (let (h1, established) =
               (case sessions h recipient of
                  Some session \<Rightarrow> (h, Inr session)
                | None \<Rightarrow> establishSession cr recipient pk fp h)
         in case established of
              Inl e \<Rightarrow> (h1, Inl e)
            | Inr session \<Rightarrow>
                (let messageId = ''msg-'' @ show_int (now h1) @ ''-'' @ rnd;
                     ts = now h1
                 in case encryptSessionMessage cr session (myUserId h1) recipient content' of
                      Inl e \<Rightarrow> (h1, Inl e)
                    | Inr ct \<Rightarrow>
                        (let h2 = persist (newEnvelope messageId conv (myUserId h1) recipient ct ts) h1;
                             payload = \<lparr>conversationId_p = conv, senderId_p = myUserId h2,
                                        recipientId_p = recipient, ciphertext_p = ct,
                                        timestamp_p = ts\<rparr>;
                             (h3, sent) = clientSend (MessageFrame payload) h2
                         in (h3, Inr \<lparr>id_m = messageId, conversationId_m = conv,
                                      senderId_m = myUserId h3, content = content', timestamp_m = ts,
                                      status = (if sent then Sent else Sending),
                                      isEncrypted = True\<rparr>)))))"

subsection \<open>Receiving\<close>

text \<open>
  \<open>handleEncryptedMessage\<close>. With no session for the sender the call requests the key
  and awaits the promise; what follows the \<open>await\<close> is \<open>resume\<close>. With a session it
  decrypts, saves, calls \<open>onMessage\<close> and sends the acknowledgment; whatever is thrown
  on the way goes to the \<open>catch\<close>.
\<close>

definition handleEncryptedMessage :: "crypto \<Rightarrow> EncryptedMessagePayload \<Rightarrow> MessageHandler \<Rightarrow> MessageHandler" where
  "handleEncryptedMessage cr payload h =
     (case sessions h (senderId_p payload) of
        None \<Rightarrow>
          (let (h1, r) = requestPublicKey (senderId_p payload) h
           in awaitKey r payload h1)
      | Some session \<Rightarrow>
          (case decryptSessionMessage cr session
                  \<lparr>sessionId_s = sessionId session, senderId_s = senderId_p payload,
                   recipientId_s = myUserId h, ciphertext_s = ciphertext_p payload,
                   timestamp_s = timestamp_p payload\<rparr> of
             Inl e \<Rightarrow> catchBlock e h
           | Inr plaintext \<Rightarrow>
               (let msg = \<lparr>id_m = ''msg-'' @ show_int (timestamp_p payload),
                           conversationId_m = conversationId_p payload,
                           senderId_m = senderId_p payload, content = plaintext,
                           timestamp_m = timestamp_p payload, status = Delivered,
                           isEncrypted = True\<rparr>;
                    h1 = persist (newEnvelope (id_m msg) (conversationId_p payload)
                                    (senderId_p payload) (myUserId h) (ciphertext_p payload)
                                    (timestamp_p payload)) h;
                    h2 = notify onMessage (OnMessage msg) h1;
                    (h3, ok) = clientSend (MessageAckFrame
                                 \<lparr>messageId_a = id_m msg, conversationId_a = conversationId_p payload,
                                  status_a = Delivered\<rparr>) h2
                in h3)))"

subsection \<open>Sync on reconnect\<close>

text \<open>
  The body of the loop of \<open>syncPendingMessages\<close> for one envelope:
  \<open>const sent = this.client.send('message', {...}); if (sent) await messageStore.markSynced(msg.id)\<close>.
\<close>

definition syncStep :: "StoredMessage \<Rightarrow> MessageHandler \<Rightarrow> MessageHandler" where
  "syncStep msg h =
     (let (h1, sent) = clientSend (MessageFrame
                         \<lparr>conversationId_p = conversationId msg, senderId_p = senderId msg,
                          recipientId_p = recipientId msg, ciphertext_p = ciphertext msg,
                          timestamp_p = timestamp msg\<rparr>) h
      in if sent then h1\<lparr>store := markSynced (id' msg) (store h1)\<rparr> else h1)"

text \<open>
  The loop of \<open>syncPendingMessages\<close> over the unsynced envelopes it read. The pass is
  taken as one step: nothing else happens between its iterations, so the connection
  state is the same at every send.
\<close>

fun syncLoop :: "StoredMessage list \<Rightarrow> MessageHandler \<Rightarrow> MessageHandler" where
  "syncLoop [] h = h"
| "syncLoop (msg # unsynced) h = syncLoop unsynced (syncStep msg h)"

definition syncPendingMessages :: "MessageHandler \<Rightarrow> MessageHandler" where
  "syncPendingMessages h =
     (let (s1, unsynced) = getUnsynced (store h)
      in syncLoop unsynced (h\<lparr>store := s1\<rparr>))"

text \<open>The listener that \<open>setupHandlers\<close> gives to \<open>client.onConnectionChange\<close>.\<close>

definition connectionChangeListener :: "ConnectionState \<Rightarrow> MessageHandler \<Rightarrow> MessageHandler" where
  "connectionChangeListener st h =
     (let h1 = notify onConnectionChange (OnConnectionChange st) h
      in if st = Connected then syncPendingMessages h1 else h1)"

text \<open>
  Modelled from the spec: a state transition of the \<open>WebSocketClient\<close>, which is not
  among the source files. The client has a "single authoritative value" of the
  connection state and its subscribers "observe the same transitions": the state
  becomes \<open>st\<close> and the listener is called with it.
\<close>

definition connectionTransition :: "ConnectionState \<Rightarrow> MessageHandler \<Rightarrow> MessageHandler" where
  "connectionTransition st h = connectionChangeListener st (h\<lparr>client := (client h)\<lparr>state := st\<rparr>\<rparr>)"

subsection \<open>The sync hook\<close>

text \<open>
  \<open>syncNow\<close> of \<open>useMessageSync\<close> in \<open>useMessages.ts\<close>, as it acts on the message store:
  it returns at once when a sync is running or the hook is not online, and otherwise
  marks every unsynced envelope synced, with no send. \<open>isSyncing\<close> and \<open>isOnline\<close> are the
  values the hook holds when it is called.
\<close>

fun markAllSynced :: "StoredMessage list \<Rightarrow> MessageStoreManager \<Rightarrow> MessageStoreManager" where
  "markAllSynced [] s = s"
| "markAllSynced (msg # unsynced) s = markAllSynced unsynced (markSynced (id' msg) s)"

definition syncNow :: "bool \<Rightarrow> bool \<Rightarrow> MessageStoreManager \<Rightarrow> MessageStoreManager" where
  "syncNow isSyncing isOnline s =
     (if isSyncing \<or> \<not> isOnline then s
      else (let (s1, unsynced) = getUnsynced s in markAllSynced unsynced s1))"


section \<open>Example states\<close>

text \<open>
  A user \<open>alice\<close> with an empty store and every callback set, connected at time 1000;
  the same user with a session for \<open>bob\<close>; a frame from \<open>bob\<close>; primitives that work and
  primitives that throw; a key response of \<open>bob\<close>.
\<close>

definition envelope1 :: StoredMessage where
  "envelope1 = \<lparr>id' = ''m1'', conversationId = ''c1'', senderId = ''alice'', recipientId = ''bob'',
                ciphertext = ''AAAA'', timestamp = 1000, synced = True, read = True\<rparr>"

definition envelope2 :: StoredMessage where
  "envelope2 = \<lparr>id' = ''m2'', conversationId = ''c1'', senderId = ''bob'', recipientId = ''alice'',
                ciphertext = ''BBBB'', timestamp = 2000, synced = False, read = False\<rparr>"

definition emptyStore :: MessageStoreManager where
  "emptyStore = \<lparr>initialized = False, pendingSync = Map.empty, syncInterval = False, db = []\<rparr>"

definition allCallbacks :: MessageHandlerCallbacks where
  "allCallbacks = \<lparr>onMessage = True, onConnectionChange = True,
                   onSessionEstablished = True, onError = True\<rparr>"

definition aliceKeys :: KeyPair where
  "aliceKeys = \<lparr>publicKeyRaw = ''PK-alice'', fingerprint_k = ''FP-alice''\<rparr>"

definition aliceHandler :: MessageHandler where
  "aliceHandler =
     \<lparr>client = \<lparr>state = Connected\<rparr>, myKeyPair = Some aliceKeys, myUserId = ''alice'',
      sessions = Map.empty, pendingKeyRequests = Map.empty, callbacks = allCallbacks,
      store = emptyStore, savedSessions = [], keyRequests = [], now = 1000, trace = []\<rparr>"

definition bobSession :: SecureSession where
  "bobSession = \<lparr>sessionId = ''s-bob'', createdAt = 900\<rparr>"

definition aliceWithBob :: MessageHandler where
  "aliceWithBob = aliceHandler\<lparr>sessions := [''bob'' \<mapsto> bobSession]\<rparr>"

definition bobFrame :: EncryptedMessagePayload where
  "bobFrame = \<lparr>conversationId_p = ''c1'', senderId_p = ''bob'', recipientId_p = ''alice'',
               ciphertext_p = ''CT'', timestamp_p = 42\<rparr>"

definition workingCrypto :: crypto where
  "workingCrypto =
     \<lparr>establishSecureSession = (\<lambda>kp pk fp. Inr \<lparr>sessionId = ''s-'' @ fp, createdAt = 0\<rparr>),
      encryptSessionMessage = (\<lambda>session sid rid text. Inr (''enc:'' @ text)),
      decryptSessionMessage = (\<lambda>session p. Inr (''dec:'' @ ciphertext_s p))\<rparr>"

definition failingCrypto :: crypto where
  "failingCrypto =
     \<lparr>establishSecureSession = (\<lambda>kp pk fp. Inl (Error ''invalid key'')),
      encryptSessionMessage = (\<lambda>session sid rid text. Inl (Error ''encrypt failed'')),
      decryptSessionMessage = (\<lambda>session p. Inl (Error ''bad tag''))\<rparr>"

definition bobKey :: KeyResponsePayload where
  "bobKey = \<lparr>userId = ''bob'', publicKey = ''PK-bob'', fingerprint = ''FP-bob''\<rparr>"

text \<open>A store with two envelopes, an update that carries a ciphertext.\<close>

definition storedPair :: MessageStoreManager where
  "storedPair = emptyStore\<lparr>db := [envelope1, envelope2]\<rparr>"

definition ciphertextUpdate :: MessageUpdates where
  "ciphertextUpdate = \<lparr>ciphertext_u = Some ''ZZZZ'', read_u = None, synced_u = None\<rparr>"

text \<open>A store whose conversation \<open>c1\<close> has \<open>n\<close> envelopes, with ids of lengths 0 to \<open>n - 1\<close>.\<close>

definition conversationOf :: "nat \<Rightarrow> MessageStoreManager" where
  "conversationOf n =
     emptyStore\<lparr>db := map (\<lambda>i. \<lparr>id' = replicate i (CHR ''m''), conversationId = ''c1'',
                                  senderId = ''bob'', recipientId = ''alice'', ciphertext = ''CT'',
                                  timestamp = int i, synced = False, read = False\<rparr>) [0 ..< n]\<rparr>"

text \<open>The same user offline, with two envelopes stored, one of them unsynced.\<close>

definition aliceOffline :: MessageHandler where
  "aliceOffline = aliceHandler\<lparr>client := \<lparr>state = Disconnected\<rparr>, store := storedPair\<rparr>"

section \<open>Properties of the message store\<close>

subsection \<open>The table\<close>

lemma db_init [simp]: "db (init s) = db s"
  by (simp add: init_def startSyncMonitor_def)

lemma db_get_id: "db_get k t = Some m \<Longrightarrow> id' m = k"
  by (induction t) (auto simp: db_get_def split: if_splits)

lemma db_get_storeMessage:
  "db_get k (storeMessage m t) = (if k = id' m then Some m else db_get k t)"
  by (induction t) (auto simp: db_get_def)

lemma storeMessage_twice: "storeMessage m (storeMessage m t) = storeMessage m t"
  by (induction t) auto

lemma id_applyUpdates [simp]: "id' (applyUpdates m u) = id' m"
  by (simp add: applyUpdates_def)

lemma db_saveMessage:
  "db (fst (saveMessage message s)) = storeMessage (message\<lparr>synced := False, read := False\<rparr>) (db s)"
  by (simp add: saveMessage_def Let_def)

lemma snd_saveMessage:
  "snd (saveMessage message s) = message\<lparr>synced := False, read := False\<rparr>"
  by (simp add: saveMessage_def Let_def)

lemma db_get_updateMessage:
  "db_get k (db (fst (updateMessage j u s))) =
     (if k = j then map_option (\<lambda>m. applyUpdates m u) (db_get j (db s)) else db_get k (db s))"
  by (auto simp: updateMessage_def getMessage_def Let_def db_get_storeMessage
           dest: db_get_id split: option.splits)

lemma db_get_markMessageSynced:
  "db_get k (markMessageSynced j t) =
     (if k = j then map_option (\<lambda>m. m\<lparr>synced := True\<rparr>) (db_get j t) else db_get k t)"
  by (auto simp: markMessageSynced_def db_get_storeMessage dest: db_get_id split: option.splits)

lemma db_get_markSynced:
  "db_get k (db (markSynced j s)) =
     (if k = j then map_option (\<lambda>m. m\<lparr>synced := True\<rparr>) (db_get j (db s)) else db_get k (db s))"
  by (simp add: markSynced_def db_get_markMessageSynced)

lemma db_get_markAsRead:
  "db_get k (db (markAsRead j s)) =
     (if k = j then map_option (\<lambda>m. m\<lparr>read := True\<rparr>) (db_get j (db s)) else db_get k (db s))"
  by (simp add: markAsRead_def db_get_updateMessage applyUpdates_def readUpdate_def)

lemma db_get_importLoop:
  "db_get k (db (fst (importLoop messages (s, n)))) =
     (case db_get k (db s) of
        Some e \<Rightarrow> Some e
      | None \<Rightarrow> map_option (\<lambda>m. m\<lparr>synced := True\<rparr>) (find (\<lambda>m. id' m = k) messages))"
proof (induction messages arbitrary: s n)
  case Nil
  then show ?case by (simp split: option.splits)
next
  case (Cons msg messages)
  show ?case
  proof (cases "db_get (id' msg) (db s)")
    case None
    then show ?thesis
      using Cons.IH [of "(init s)\<lparr>db := storeMessage (msg\<lparr>synced := True\<rparr>) (db s)\<rparr>" "n + 1"]
      by (auto simp: getMessage_def Let_def db_get_storeMessage split: option.splits)
  next
    case (Some e)
    then show ?thesis
      using Cons.IH [of "init s" n]
      by (auto simp: getMessage_def Let_def split: option.splits)
  qed
qed


subsection \<open>Claim C1\<close>

text \<open>
  C1 reads: the ciphertext of a stored envelope is write-once; every update operation
  on an existing envelope (\<open>updateMessage\<close>, \<open>markAsRead\<close>, \<open>markSynced\<close>) leaves it as it
  was at creation and may change only \<open>synced\<close> and \<open>read\<close>. An envelope is created by
  \<open>saveMessage\<close> with ciphertext \<open>AAAA\<close>; \<open>updateMessage\<close> with the key \<open>ciphertext\<close> in
  its updates then stores \<open>ZZZZ\<close> in its place.
\<close>

theorem updateMessage_rewrites_ciphertext:
  "db_get ''m1'' (db (fst (saveMessage envelope1 emptyStore)))
     = Some (envelope1\<lparr>synced := False, read := False\<rparr>)
   \<and> db_get ''m1'' (db (fst (updateMessage ''m1'' ciphertextUpdate (fst (saveMessage envelope1 emptyStore)))))
     = Some (envelope1\<lparr>ciphertext := ''ZZZZ'', synced := False, read := False\<rparr>)
   \<and> ciphertext (envelope1\<lparr>ciphertext := ''ZZZZ'', synced := False, read := False\<rparr>)
     \<noteq> ciphertext envelope1"
  by (simp add: db_get_updateMessage db_saveMessage db_get_storeMessage applyUpdates_def
        ciphertextUpdate_def envelope1_def)

text \<open>
  C1 as amended: \<open>updateMessage\<close> called with no \<open>ciphertext\<close> key in its updates leaves
  every stored envelope as it was but for \<open>synced\<close> and \<open>read\<close>; \<open>markAsRead\<close> leaves
  every stored envelope as it was but for \<open>read\<close>, and \<open>markSynced\<close> but for \<open>synced\<close>.
  The ciphertext of every envelope is then the one stored before.
\<close>

theorem updates_touch_only_flags:
  "(ciphertext_u updates = None \<longrightarrow>
      map_option (\<lambda>m. m\<lparr>synced := False, read := False\<rparr>)
          (db_get k (db (fst (updateMessage messageId updates s))))
        = map_option (\<lambda>m. m\<lparr>synced := False, read := False\<rparr>) (db_get k (db s)))
   \<and> map_option (\<lambda>m. m\<lparr>read := False\<rparr>) (db_get k (db (markAsRead messageId s)))
        = map_option (\<lambda>m. m\<lparr>read := False\<rparr>) (db_get k (db s))
   \<and> map_option (\<lambda>m. m\<lparr>synced := False\<rparr>) (db_get k (db (markSynced messageId s)))
        = map_option (\<lambda>m. m\<lparr>synced := False\<rparr>) (db_get k (db s))"
  by (cases "db_get messageId (db s)")
     (auto simp: db_get_updateMessage db_get_markAsRead db_get_markSynced applyUpdates_def)

theorem updates_touch_only_flags_witness:
  "ciphertext_u readUpdate = None
   \<and> db_get ''m2'' (db storedPair) = Some envelope2
   \<and> map_option (\<lambda>m. m\<lparr>synced := False, read := False\<rparr>)
        (db_get ''m2'' (db (fst (updateMessage ''m2'' readUpdate storedPair))))
      = Some (envelope2\<lparr>synced := False, read := False\<rparr>)
   \<and> map_option (\<lambda>m. m\<lparr>read := False\<rparr>) (db_get ''m2'' (db (markAsRead ''m2'' storedPair)))
      = Some (envelope2\<lparr>read := False\<rparr>)
   \<and> map_option (\<lambda>m. m\<lparr>synced := False\<rparr>) (db_get ''m2'' (db (markSynced ''m2'' storedPair)))
      = Some (envelope2\<lparr>synced := False\<rparr>)"
proof -
  have u: "ciphertext_u readUpdate = None" by (simp add: readUpdate_def)
  have g: "db_get ''m2'' (db storedPair) = Some envelope2"
    by (simp add: storedPair_def db_get_def envelope1_def envelope2_def)
  show ?thesis
    using u g updates_touch_only_flags [of readUpdate "''m2''" "''m2''" storedPair]
    by simp
qed

subsection \<open>Claim C9\<close>

text \<open>
  C9: whatever record \<open>saveMessage\<close> is given, the envelope it returns and the envelope
  it persists have \<open>synced = false\<close> and \<open>read = false\<close>. \<open>importMessages\<close> leaves every
  id that is already stored as it is and stores, for an id that is not, the first
  message of its input with that id, with \<open>synced\<close> set to true. \<open>updateMessage\<close> and
  \<open>markSynced\<close> create no envelope: an id that is not stored is not stored afterwards.
\<close>

theorem saveMessage_never_synced_or_read:
  "snd (saveMessage message s) = message\<lparr>synced := False, read := False\<rparr>
   \<and> db_get (id' message) (db (fst (saveMessage message s)))
       = Some (message\<lparr>synced := False, read := False\<rparr>)
   \<and> db_get k (db (fst (importMessages messages s))) =
       (case db_get k (db s) of
          Some e \<Rightarrow> Some e
        | None \<Rightarrow> map_option (\<lambda>m. m\<lparr>synced := True\<rparr>) (find (\<lambda>m. id' m = k) messages))
   \<and> (db_get k (db s) = None \<longrightarrow>
        db_get k (db (fst (updateMessage j updates s))) = None
        \<and> db_get k (db (markSynced j s)) = None)"
  by (simp add: snd_saveMessage db_saveMessage db_get_storeMessage importMessages_def
        db_get_importLoop db_get_updateMessage db_get_markSynced)

theorem saveMessage_never_synced_or_read_witness:
  "synced envelope1 \<and> read envelope1
   \<and> snd (saveMessage envelope1 emptyStore) = envelope1\<lparr>synced := False, read := False\<rparr>
   \<and> db_get ''m1'' (db (fst (saveMessage envelope1 emptyStore)))
       = Some (envelope1\<lparr>synced := False, read := False\<rparr>)
   \<and> db_get ''m1'' (db (fst (importMessages [envelope1, envelope2] storedPair))) = Some envelope1
   \<and> db_get ''m3'' (db storedPair) = None
   \<and> db_get ''m3'' (db (fst (updateMessage ''m3'' ciphertextUpdate storedPair))) = None
   \<and> db_get ''m3'' (db (markSynced ''m3'' storedPair)) = None"
proof -
  have e: "synced envelope1 \<and> read envelope1 \<and> id' envelope1 = ''m1''" by (simp add: envelope1_def)
  have g: "db_get ''m3'' (db storedPair) = None \<and> db_get ''m1'' (db storedPair) = Some envelope1"
    by (simp add: storedPair_def db_get_def envelope1_def envelope2_def)
  show ?thesis
    using e g saveMessage_never_synced_or_read [of envelope1 emptyStore "''m1''" "[envelope1, envelope2]" "''m3''" ciphertextUpdate]
      saveMessage_never_synced_or_read [of envelope1 storedPair "''m3''" "[envelope1, envelope2]" "''m3''" ciphertextUpdate]
      saveMessage_never_synced_or_read [of envelope1 storedPair "''m1''" "[envelope1, envelope2]" "''m3''" ciphertextUpdate]
    by simp
qed

subsection \<open>Bulk operations on a conversation\<close>

lemma length_getMessages:
  "length (getMessages conv limit None t) = min limit (length (filter (\<lambda>m. conversationId m = conv) t))"
  by (simp add: getMessages_def min.commute)

lemma set_getMessages:
  "set (getMessages conv limit None t) \<subseteq> {m \<in> set t. conversationId m = conv}"
proof -
  have "set (take limit (sort_key (\<lambda>m. - timestamp m) (filter (\<lambda>m. conversationId m = conv) t)))
          \<subseteq> set (sort_key (\<lambda>m. - timestamp m) (filter (\<lambda>m. conversationId m = conv) t))"
    by (rule set_take_subset)
  then show ?thesis by (auto simp: getMessages_def)
qed

lemma deleteLoop_result:
  "deleteLoop ms (s, c) = (s', c') \<Longrightarrow>
     db s' = filter (\<lambda>m. id' m \<notin> id' ` set ms) (db s) \<and> c' = c + length ms"
proof (induction ms arbitrary: s c)
  case Nil
  then show ?case by simp
next
  case (Cons msg ms)
  from Cons.prems
  have "deleteLoop ms ((init s)\<lparr>db := db_delete (id' msg) (db s)\<rparr>, c + 1) = (s', c')"
    by (simp add: deleteMessage_def Let_def)
  from Cons.IH [OF this] show ?case
    by (auto simp: db_delete_def intro: filter_cong)
qed

lemma deleteConversationMessages_result:
  "snd (deleteConversationMessages conv s) = length (getMessages conv 10000 None (db s))
   \<and> db (fst (deleteConversationMessages conv s))
       = filter (\<lambda>m. id' m \<notin> id' ` set (getMessages conv 10000 None (db s))) (db s)"
proof -
  obtain s' c' where r: "deleteLoop (getMessages conv 10000 None (db s)) (init s, 0) = (s', c')"
    by (cases "deleteLoop (getMessages conv 10000 None (db s)) (init s, 0)")
  from deleteLoop_result [OF r] r show ?thesis
    by (simp add: deleteConversationMessages_def Let_def)
qed

lemma db_get_markReadLoop:
  "db_get k (db (markReadLoop ms s)) =
     (if k \<in> id' ` {m \<in> set ms. \<not> read m}
      then map_option (\<lambda>m. m\<lparr>read := True\<rparr>) (db_get k (db s)) else db_get k (db s))"
proof (induction ms arbitrary: s)
  case Nil
  then show ?case by simp
next
  case (Cons msg ms)
  have step: "db_get k (db (fst (updateMessage (id' msg) readUpdate s))) =
     (if k = id' msg then map_option (\<lambda>m. m\<lparr>read := True\<rparr>) (db_get k (db s)) else db_get k (db s))"
    by (simp add: db_get_updateMessage applyUpdates_def readUpdate_def)
  show ?case
  proof (cases "read msg")
    case True
    then show ?thesis using Cons.IH [of s] by auto
  next
    case False
    then show ?thesis
      using Cons.IH [of "fst (updateMessage (id' msg) readUpdate s)"] step
      by (cases "db_get k (db s)") auto
  qed
qed

lemma db_get_markConversationAsRead:
  "db_get k (db (markConversationAsRead conv s)) =
     (if k \<in> id' ` {m \<in> set (getMessages conv 10000 None (db s)). \<not> read m}
      then map_option (\<lambda>m. m\<lparr>read := True\<rparr>) (db_get k (db s)) else db_get k (db s))"
  by (simp add: markConversationAsRead_def Let_def db_get_markReadLoop)

lemma remaining_after_delete:
  assumes d: "distinct (map id' t)"
  shows "length (filter (\<lambda>m. conversationId m = conv)
            (filter (\<lambda>m. id' m \<notin> id' ` set (getMessages conv limit None t)) t))
         = length (filter (\<lambda>m. conversationId m = conv) t) - limit"
proof -
  let ?C = "filter (\<lambda>m. conversationId m = conv) t"
  let ?R = "getMessages conv limit None t"
  have dC: "distinct (map id' ?C)" using d by (rule distinct_map_filter)
  then have distC: "distinct ?C" and inj: "inj_on id' (set ?C)"
    by (auto simp: distinct_map)
  have R_def: "?R = take limit (sort_key (\<lambda>m. - timestamp m) ?C)"
    by (simp add: getMessages_def)
  have sub: "set ?R \<subseteq> set ?C"
    unfolding R_def using set_take_subset [of limit "sort_key (\<lambda>m. - timestamp m) ?C"] by simp
  have distR: "distinct ?R"
    unfolding R_def using distC by simp
  have eq: "filter (\<lambda>m. id' m \<notin> id' ` set ?R) ?C = filter (\<lambda>m. m \<notin> set ?R) ?C"
  proof (rule filter_cong [OF refl])
    fix m assume m: "m \<in> set ?C"
    show "(id' m \<notin> id' ` set ?R) = (m \<notin> set ?R)"
      using inj sub m by (auto dest: inj_onD)
  qed
  have "filter (\<lambda>m. conversationId m = conv) (filter (\<lambda>m. id' m \<notin> id' ` set ?R) t)
          = filter (\<lambda>m. id' m \<notin> id' ` set ?R) ?C"
    by (simp add: conj_commute)
  also have "\<dots> = filter (\<lambda>m. m \<notin> set ?R) ?C" by (rule eq)
  finally have "length (filter (\<lambda>m. conversationId m = conv) (filter (\<lambda>m. id' m \<notin> id' ` set ?R) t))
      = length (filter (\<lambda>m. m \<notin> set ?R) ?C)" by simp
  also have "\<dots> = card ({m. m \<notin> set ?R} \<inter> set ?C)"
    using distC by (rule distinct_length_filter)
  also have "\<dots> = card (set ?C - set ?R)"
    by (rule arg_cong [where f = card]) blast
  also have "\<dots> = card (set ?C) - card (set ?R)"
    using sub by (simp add: card_Diff_subset)
  also have "\<dots> = length ?C - length ?R"
    using distinct_card [OF distC] distinct_card [OF distR] by presburger
  also have "\<dots> = length ?C - limit"
    by (simp add: length_getMessages)
  finally show ?thesis .
qed

lemma conversationOf_distinct: "distinct (map id' (db (conversationOf n)))"
proof -
  have "inj_on (\<lambda>i. replicate i (CHR ''m'')) {0 ..< n}"
    by (rule inj_onI) (metis length_replicate)
  then show ?thesis
    by (simp add: conversationOf_def emptyStore_def comp_def distinct_map)
qed

lemma conversationOf_size:
  "length (filter (\<lambda>m. conversationId m = ''c1'') (db (conversationOf n))) = n"
  by (simp add: conversationOf_def emptyStore_def filter_map comp_def)

subsection \<open>Claim C10\<close>

text \<open>
  C10: each bulk operation on a conversation works on the result of one retrieval with
  limit 10000, which has at most 10000 of the conversation's envelopes.
  \<open>deleteConversationMessages\<close> returns the number of envelopes retrieved and deletes
  the envelopes with their ids and no other; when ids are distinct, a conversation of
  \<open>n\<close> envelopes keeps \<open>n - 10000\<close> of them. \<open>markConversationAsRead\<close> marks the
  retrieved unread envelopes and leaves every other id as it was. \<open>getMessageCount\<close>
  and \<open>getUnreadCount\<close> count within the retrieved envelopes, so neither exceeds 10000.
\<close>

theorem bulk_operations_bounded_by_retrieval:
  "length (getMessages conv 10000 None (db s))
     = min 10000 (length (filter (\<lambda>m. conversationId m = conv) (db s)))
   \<and> set (getMessages conv 10000 None (db s)) \<subseteq> {m \<in> set (db s). conversationId m = conv}
   \<and> snd (deleteConversationMessages conv s) = length (getMessages conv 10000 None (db s))
   \<and> db (fst (deleteConversationMessages conv s))
       = filter (\<lambda>m. id' m \<notin> id' ` set (getMessages conv 10000 None (db s))) (db s)
   \<and> (distinct (map id' (db s)) \<longrightarrow>
        length (filter (\<lambda>m. conversationId m = conv) (db (fst (deleteConversationMessages conv s))))
          = length (filter (\<lambda>m. conversationId m = conv) (db s)) - 10000)
   \<and> db_get k (db (markConversationAsRead conv s))
       = (if k \<in> id' ` {m \<in> set (getMessages conv 10000 None (db s)). \<not> read m}
          then map_option (\<lambda>m. m\<lparr>read := True\<rparr>) (db_get k (db s)) else db_get k (db s))
   \<and> getMessageCount conv s = length (getMessages conv 10000 None (db s))
   \<and> getUnreadCount conv s = length (filter (\<lambda>m. \<not> read m) (getMessages conv 10000 None (db s)))
   \<and> getUnreadCount conv s \<le> 10000"
proof -
  have unread: "getUnreadCount conv s \<le> 10000"
  proof -
    have "getUnreadCount conv s \<le> length (getMessages conv 10000 None (db s))"
      by (simp add: getUnreadCount_def)
    also have "\<dots> \<le> 10000" by (simp add: length_getMessages)
    finally show ?thesis .
  qed
  show ?thesis
    using length_getMessages [of conv 10000 "db s"] set_getMessages [of conv 10000 "db s"]
      deleteConversationMessages_result [of conv s]
      remaining_after_delete [of "db s" conv 10000]
      db_get_markConversationAsRead [of k conv s] unread
    by (simp add: getMessageCount_def getUnreadCount_def)
qed

theorem bulk_operations_bounded_by_retrieval_witness:
  "distinct (map id' (db (conversationOf 10001)))
   \<and> length (filter (\<lambda>m. conversationId m = ''c1'') (db (conversationOf 10001))) = 10001
   \<and> snd (deleteConversationMessages ''c1'' (conversationOf 10001)) = 10000
   \<and> length (filter (\<lambda>m. conversationId m = ''c1'')
        (db (fst (deleteConversationMessages ''c1'' (conversationOf 10001))))) = 1
   \<and> getMessageCount ''c1'' (conversationOf 10001) = 10000"
proof -
  have d: "distinct (map id' (db (conversationOf 10001)))"
    by (rule conversationOf_distinct)
  have n: "length (filter (\<lambda>m. conversationId m = ''c1'') (db (conversationOf 10001))) = 10001"
    by (rule conversationOf_size)
  note t = bulk_operations_bounded_by_retrieval [of "''c1''" "conversationOf 10001" "''m''"]
  from t n have c: "snd (deleteConversationMessages ''c1'' (conversationOf 10001)) = 10000
      \<and> getMessageCount ''c1'' (conversationOf 10001) = 10000"
    by simp
  from t d have "length (filter (\<lambda>m. conversationId m = ''c1'')
        (db (fst (deleteConversationMessages ''c1'' (conversationOf 10001)))))
      = length (filter (\<lambda>m. conversationId m = ''c1'') (db (conversationOf 10001))) - 10000"
    by blast
  with n have r: "length (filter (\<lambda>m. conversationId m = ''c1'')
        (db (fst (deleteConversationMessages ''c1'' (conversationOf 10001))))) = 1"
    by simp
  from d n c r show ?thesis by blast
qed

section \<open>Properties of the handler\<close>

subsection \<open>Key requests and timers\<close>

lemma requestPublicKey_eq:
  "requestPublicKey u h =
     (h\<lparr>keyRequests := keyRequests h @
           [\<lparr>target = u, deadline = now h + 10000, timerActive = True,
             promise = PromisePending, awaiting = None\<rparr>],
        pendingKeyRequests := (pendingKeyRequests h)(u \<mapsto> length (keyRequests h)),
        trace := trace h @
           [Send (KeyRequestFrame \<lparr>requesterId = myUserId h, targetUserId = u\<rparr>)
              (state (client h) = Connected)]\<rparr>,
      length (keyRequests h))"
  by (simp add: requestPublicKey_def clientSend_def send_def Let_def)

lemma resume_frame:
  "keyRequests (resume r h) = keyRequests h \<and> now (resume r h) = now h
   \<and> pendingKeyRequests (resume r h) = pendingKeyRequests h"
  by (simp add: resume_def persist_def catchBlock_def notify_def Let_def
           split: option.splits promise.splits prod.splits)

lemma timeoutCallback_now [simp]: "now (timeoutCallback j h) = now h"
  by (simp add: timeoutCallback_def settle_def clearTimeout_def Let_def resume_frame)

lemma timeoutCallback_length [simp]:
  "length (keyRequests (timeoutCallback j h)) = length (keyRequests h)"
  by (simp add: timeoutCallback_def settle_def clearTimeout_def Let_def resume_frame)

lemma timeoutCallback_other:
  "j \<noteq> r \<Longrightarrow> keyRequests (timeoutCallback j h) ! r = keyRequests h ! r"
  by (simp add: timeoutCallback_def settle_def clearTimeout_def Let_def resume_frame)

lemma timeoutCallback_keeps_absent:
  "pendingKeyRequests h u = None \<Longrightarrow> pendingKeyRequests (timeoutCallback j h) u = None"
  by (simp add: timeoutCallback_def settle_def clearTimeout_def Let_def resume_frame)

lemma timeoutCallback_fires:
  assumes "r < length (keyRequests h)" "promise (keyRequests h ! r) = PromisePending"
  shows "promise (keyRequests (timeoutCallback r h) ! r) = Rejected (Error ''Key request timeout'')
         \<and> \<not> timerActive (keyRequests (timeoutCallback r h) ! r)
         \<and> pendingKeyRequests (timeoutCallback r h) (target (keyRequests h ! r)) = None"
  using assms
  by (simp add: timeoutCallback_def settle_def clearTimeout_def Let_def resume_frame)

lemma fireTimers_append: "fireTimers (xs @ ys) h = fireTimers ys (fireTimers xs h)"
  by (induction xs arbitrary: h) simp_all

lemma fireTimers_other:
  "r \<notin> set rs \<Longrightarrow>
     keyRequests (fireTimers rs h) ! r = keyRequests h ! r
     \<and> length (keyRequests (fireTimers rs h)) = length (keyRequests h)
     \<and> now (fireTimers rs h) = now h"
  by (induction rs arbitrary: h) (auto simp: timeoutCallback_other)

lemma timeoutCallback_keeps_rejected:
  "promise (keyRequests h ! r) = Rejected e \<Longrightarrow> \<not> timerActive (keyRequests h ! r) \<Longrightarrow>
     promise (keyRequests (timeoutCallback j h) ! r) = Rejected e
     \<and> \<not> timerActive (keyRequests (timeoutCallback j h) ! r)"
  by (cases "j = r")
     (simp_all add: timeoutCallback_def settle_def clearTimeout_def Let_def resume_frame)

lemma fireTimers_keeps_absent:
  "pendingKeyRequests h u = None \<Longrightarrow> pendingKeyRequests (fireTimers rs h) u = None"
  by (induction rs arbitrary: h) (simp_all add: timeoutCallback_keeps_absent)

lemma fireTimers_keeps_rejected:
  "promise (keyRequests h ! r) = Rejected e \<Longrightarrow> \<not> timerActive (keyRequests h ! r) \<Longrightarrow>
     promise (keyRequests (fireTimers rs h) ! r) = Rejected e
     \<and> \<not> timerActive (keyRequests (fireTimers rs h) ! r)"
  by (induction rs arbitrary: h) (simp_all add: timeoutCallback_keeps_rejected)

lemma awaited_request_rejected:
  assumes r: "r < length (keyRequests h)"
    and active: "timerActive (keyRequests h ! r)"
    and pending: "promise (keyRequests h ! r) = PromisePending"
    and due: "deadline (keyRequests h ! r) \<le> now h + int ms"
  shows "promise (keyRequests (advanceTime ms h) ! r) = Rejected (Error ''Key request timeout'')
         \<and> \<not> timerActive (keyRequests (advanceTime ms h) ! r)
         \<and> pendingKeyRequests (advanceTime ms h) (target (keyRequests h ! r)) = None"
proof -
  let ?n = "length (keyRequests h)"
  let ?h' = "h\<lparr>now := now h + int ms\<rparr>"
  let ?mid = "fireTimers [0 ..< r] ?h'"
  let ?fired = "timeoutCallback r ?mid"
  have "[0 ..< r + (?n - r)] = [0 ..< r] @ [r ..< r + (?n - r)]"
    by (rule upt_add_eq_append) simp
  moreover have "r + (?n - r) = ?n" using r by simp
  moreover have "[r ..< ?n] = r # [Suc r ..< ?n]" using r by (rule upt_conv_Cons)
  ultimately have split: "[0 ..< ?n] = [0 ..< r] @ r # [Suc r ..< ?n]"
    by simp
  have mid: "keyRequests ?mid ! r = keyRequests h ! r \<and> length (keyRequests ?mid) = ?n
             \<and> now ?mid = now h + int ms"
    using fireTimers_other [of r "[0 ..< r]" ?h'] by simp
  have adv: "advanceTime ms h = fireTimers [Suc r ..< ?n] ?fired"
    using mid r active due
    by (simp add: advanceTime_def Let_def split fireTimers_append)
  from mid r pending timeoutCallback_fires [of r ?mid]
  have fired: "promise (keyRequests ?fired ! r) = Rejected (Error ''Key request timeout'')
         \<and> \<not> timerActive (keyRequests ?fired ! r)
         \<and> pendingKeyRequests ?fired (target (keyRequests h ! r)) = None"
    by simp
  with fireTimers_keeps_rejected [of ?fired r _ "[Suc r ..< ?n]"]
    fireTimers_keeps_absent [of ?fired _ "[Suc r ..< ?n]"]
  show ?thesis by (simp add: adv)
qed

lemma fireTimers_length_now:
  "length (keyRequests (fireTimers rs h)) = length (keyRequests h)
   \<and> now (fireTimers rs h) = now h"
  by (induction rs arbitrary: h) simp_all

lemma advanceTime_length_now:
  "length (keyRequests (advanceTime ms h)) = length (keyRequests h)
   \<and> now (advanceTime ms h) = now h + int ms"
  by (simp add: advanceTime_def Let_def fireTimers_length_now)

lemma fireTimers_not_due:
  "r < length (keyRequests h) \<Longrightarrow> \<not> deadline (keyRequests h ! r) \<le> now h \<Longrightarrow>
     keyRequests (fireTimers rs h) ! r = keyRequests h ! r"
proof (induction rs arbitrary: h)
  case Nil
  then show ?case by simp
next
  case (Cons j rs)
  let ?h' = "if j < length (keyRequests h) \<and> timerActive (keyRequests h ! j)
                \<and> deadline (keyRequests h ! j) \<le> now h
             then timeoutCallback j h else h"
  have same: "keyRequests ?h' ! r = keyRequests h ! r
              \<and> length (keyRequests ?h') = length (keyRequests h) \<and> now ?h' = now h"
  proof (cases "j = r")
    case True
    with Cons.prems show ?thesis by simp
  next
    case False
    then show ?thesis by (simp add: timeoutCallback_other)
  qed
  with Cons.prems have "keyRequests (fireTimers rs ?h') ! r = keyRequests ?h' ! r"
    by (intro Cons.IH) simp_all
  with same show ?case by simp
qed

lemma awaited_request_pending:
  assumes r: "r < length (keyRequests h)"
    and early: "now h + int d < deadline (keyRequests h ! r)"
  shows "keyRequests (advanceTime d h) ! r = keyRequests h ! r"
  using fireTimers_not_due [of r "h\<lparr>now := now h + int d\<rparr>" "[0 ..< length (keyRequests h)]"]
    r early
  by (simp add: advanceTime_def Let_def)

lemma timeoutCallback_store [simp]: "store (timeoutCallback j h) = store h"
  by (simp add: timeoutCallback_def settle_def clearTimeout_def Let_def resume_def
        catchBlock_def notify_def split: option.splits)

lemma fireTimers_store [simp]: "store (fireTimers rs h) = store h"
  by (induction rs arbitrary: h) simp_all

lemma advanceTime_store [simp]: "store (advanceTime ms h) = store h"
  by (simp add: advanceTime_def Let_def)

subsection \<open>Receiving\<close>

lemma persist_eq:
  "persist m h =
     h\<lparr>store := fst (saveMessage m (store h)),
        trace := trace h @ [Persist (m\<lparr>synced := False, read := False\<rparr>)]\<rparr>"
  by (simp add: persist_def split_def snd_saveMessage)

lemma handleEncryptedMessage_no_session:
  assumes "sessions h (senderId_p payload) = None"
  shows "handleEncryptedMessage cr payload h =
     h\<lparr>keyRequests := keyRequests h @
           [\<lparr>target = senderId_p payload, deadline = now h + 10000, timerActive = True,
             promise = PromisePending, awaiting = Some payload\<rparr>],
        pendingKeyRequests := (pendingKeyRequests h)(senderId_p payload \<mapsto> length (keyRequests h)),
        trace := trace h @
           [Send (KeyRequestFrame \<lparr>requesterId = myUserId h, targetUserId = senderId_p payload\<rparr>)
              (state (client h) = Connected)]\<rparr>"
  using assms by (simp add: handleEncryptedMessage_def requestPublicKey_eq awaitKey_def)

lemma handleEncryptedMessage_decrypt_fails:
  assumes "sessions h (senderId_p payload) = Some session"
    and "decryptSessionMessage cr session
           \<lparr>sessionId_s = sessionId session, senderId_s = senderId_p payload,
            recipientId_s = myUserId h, ciphertext_s = ciphertext_p payload,
            timestamp_s = timestamp_p payload\<rparr> = Inl e"
  shows "handleEncryptedMessage cr payload h = catchBlock e h"
  using assms by (simp add: handleEncryptedMessage_def)

lemma handleEncryptedMessage_decrypts:
  assumes "sessions h (senderId_p payload) = Some session"
    and "decryptSessionMessage cr session
           \<lparr>sessionId_s = sessionId session, senderId_s = senderId_p payload,
            recipientId_s = myUserId h, ciphertext_s = ciphertext_p payload,
            timestamp_s = timestamp_p payload\<rparr> = Inr plaintext"
  shows "handleEncryptedMessage cr payload h =
     h\<lparr>store := fst (saveMessage
                   (newEnvelope (''msg-'' @ show_int (timestamp_p payload)) (conversationId_p payload)
                      (senderId_p payload) (myUserId h) (ciphertext_p payload) (timestamp_p payload))
                   (store h)),
        trace := trace h @
          [Persist (newEnvelope (''msg-'' @ show_int (timestamp_p payload)) (conversationId_p payload)
                      (senderId_p payload) (myUserId h) (ciphertext_p payload) (timestamp_p payload))]
          @ (if onMessage (callbacks h)
             then [Callback (OnMessage
                     \<lparr>id_m = ''msg-'' @ show_int (timestamp_p payload),
                      conversationId_m = conversationId_p payload,
                      senderId_m = senderId_p payload, content = plaintext,
                      timestamp_m = timestamp_p payload, status = Delivered,
                      isEncrypted = True\<rparr>)]
             else [])
          @ [Send (MessageAckFrame
                     \<lparr>messageId_a = ''msg-'' @ show_int (timestamp_p payload),
                      conversationId_a = conversationId_p payload, status_a = Delivered\<rparr>)
               (state (client h) = Connected)]\<rparr>"
  using assms
  by (simp add: handleEncryptedMessage_def persist_eq notify_def clientSend_def send_def
        Let_def newEnvelope_def)

lemma init_twice [simp]: "init (init s) = init s"
  by (simp add: init_def startSyncMonitor_def)

lemma saveMessage_twice:
  "fst (saveMessage m (fst (saveMessage m s))) = fst (saveMessage m s)"
  by (simp add: saveMessage_def Let_def storeMessage_twice init_def startSyncMonitor_def)

subsection \<open>Claim C2\<close>

text \<open>
  C2 reads: an inbound encrypted message whose sender has no cached session is persisted
  with its ciphertext verbatim, also when the key request times out, and exactly one
  \<open>key_request\<close> is transmitted. The handler awaits the key request before it saves:
  for the frame from \<open>bob\<close>, who has no session, one \<open>key_request\<close> is sent and nothing
  is stored on receipt; when 10000 ms pass with no \<open>key_response\<close> the promise rejects,
  control goes to the \<open>catch\<close>, \<open>onError\<close> is called and the store is still empty. Only
  when the \<open>key_response\<close> arrives instead is the envelope stored.
\<close>

theorem unanswered_key_request_loses_message:
  "sessions aliceHandler (senderId_p bobFrame) = None
   \<and> db (store (handleEncryptedMessage workingCrypto bobFrame aliceHandler)) = []
   \<and> trace (handleEncryptedMessage workingCrypto bobFrame aliceHandler)
       = [Send (KeyRequestFrame \<lparr>requesterId = ''alice'', targetUserId = ''bob''\<rparr>) True]
   \<and> db (store (advanceTime 10000 (handleEncryptedMessage workingCrypto bobFrame aliceHandler))) = []
   \<and> trace (advanceTime 10000 (handleEncryptedMessage workingCrypto bobFrame aliceHandler))
       = [Send (KeyRequestFrame \<lparr>requesterId = ''alice'', targetUserId = ''bob''\<rparr>) True,
          Callback (OnError ''Key request timeout'')]
   \<and> db (store (handleKeyResponse bobKey
                    (handleEncryptedMessage workingCrypto bobFrame aliceHandler)))
       = [\<lparr>id' = ''msg-1000'', conversationId = ''c1'', senderId = ''bob'',
           recipientId = ''alice'', ciphertext = ''CT'', timestamp = 42,
           synced = False, read = False\<rparr>]"
proof -
  have n: "show_int 1000 = ''1000''" by code_simp
  show ?thesis
    by (simp add: handleEncryptedMessage_no_session advanceTime_def timeoutCallback_def
          handleKeyResponse_def clearTimeout_def settle_def resume_def catchBlock_def notify_def
          persist_eq db_saveMessage newEnvelope_def Let_def n
          aliceHandler_def bobFrame_def bobKey_def emptyStore_def allCallbacks_def)
qed

subsection \<open>Claim C3\<close>

text \<open>
  C3 reads: a second \<open>requestPublicKey\<close> for a target whose request is pending reuses
  the pending entry, creates no second timer, and one \<open>key_request\<close> frame is
  transmitted for the two calls. Two calls for \<open>bob\<close> transmit two frames and leave two
  timers set; the entry of the first call is replaced by that of the second.
\<close>

theorem second_request_sends_again:
  "trace (fst (requestPublicKey ''bob'' (fst (requestPublicKey ''bob'' aliceHandler))))
     = [Send (KeyRequestFrame \<lparr>requesterId = ''alice'', targetUserId = ''bob''\<rparr>) True,
        Send (KeyRequestFrame \<lparr>requesterId = ''alice'', targetUserId = ''bob''\<rparr>) True]
   \<and> map timerActive (keyRequests (fst (requestPublicKey ''bob'' (fst (requestPublicKey ''bob'' aliceHandler)))))
     = [True, True]
   \<and> pendingKeyRequests (fst (requestPublicKey ''bob'' aliceHandler)) ''bob'' = Some 0
   \<and> pendingKeyRequests (fst (requestPublicKey ''bob'' (fst (requestPublicKey ''bob'' aliceHandler)))) ''bob''
     = Some 1"
  by (simp add: requestPublicKey_eq aliceHandler_def)

text \<open>
  C3 as amended: every call of \<open>requestPublicKey\<close> sets a timer of its own, stores its
  own resolver under the target in place of the one that was there, and sends a
  \<open>key_request\<close> of its own. After two calls for one target there are two more timers
  set, the pending entry is that of the second call, and \<open>client.send\<close> was called twice
  with a \<open>key_request\<close>.
\<close>

theorem each_request_sets_timer_and_sends:
  "snd (requestPublicKey u h) = length (keyRequests h)
   \<and> snd (requestPublicKey u (fst (requestPublicKey u h))) = length (keyRequests h) + 1
   \<and> keyRequests (fst (requestPublicKey u (fst (requestPublicKey u h))))
       = keyRequests h @
           [\<lparr>target = u, deadline = now h + 10000, timerActive = True,
             promise = PromisePending, awaiting = None\<rparr>,
            \<lparr>target = u, deadline = now h + 10000, timerActive = True,
             promise = PromisePending, awaiting = None\<rparr>]
   \<and> pendingKeyRequests (fst (requestPublicKey u (fst (requestPublicKey u h)))) u
       = Some (length (keyRequests h) + 1)
   \<and> trace (fst (requestPublicKey u (fst (requestPublicKey u h))))
       = trace h @
           [Send (KeyRequestFrame \<lparr>requesterId = myUserId h, targetUserId = u\<rparr>)
              (state (client h) = Connected),
            Send (KeyRequestFrame \<lparr>requesterId = myUserId h, targetUserId = u\<rparr>)
              (state (client h) = Connected)]"
  by (simp add: requestPublicKey_eq)

subsection \<open>Claim C8\<close>

text \<open>
  C8: a call of \<open>requestPublicKey\<close> for \<open>userId\<close> sets a timer of 10000 ms and stores its
  resolver under \<open>userId\<close>; made by \<open>handleEncryptedMessage\<close>, its only caller, the call is
  awaited by the handling of the frame. Take any later state in which the call still
  has its target and deadline, its timer set and its promise pending, that is, no
  \<open>key_response\<close> has reached its resolver, whoever awaits it. While less than 10000 ms
  have passed since the call, the promise stays pending and the timer set. Once
  10000 ms have passed, the promise is rejected with the error \<open>Key request timeout\<close>
  and there is no pending entry for \<open>userId\<close>. A request for the same \<open>userId\<close> made
  then is a fresh attempt: another call, with a new pending entry, a new timer of
  10000 ms and a new \<open>key_request\<close> handed to \<open>client.send\<close>.
\<close>

theorem key_request_times_out:
  assumes req: "requestPublicKey u h = (h1, r)"
    and still: "r < length (keyRequests h2) \<and> target (keyRequests h2 ! r) = u
                \<and> deadline (keyRequests h2 ! r) = now h + 10000
                \<and> timerActive (keyRequests h2 ! r)
                \<and> promise (keyRequests h2 ! r) = PromisePending"
    and late: "now h + 10000 \<le> now h2 + int ms"
    and again: "requestPublicKey u (advanceTime ms h2) = (h3, r')"
  shows "keyRequests h1 ! r = \<lparr>target = u, deadline = now h + 10000, timerActive = True,
                               promise = PromisePending, awaiting = None\<rparr>
         \<and> pendingKeyRequests h1 u = Some r
         \<and> (\<forall>cr payload. sessions h (senderId_p payload) = None \<and> senderId_p payload = u \<longrightarrow>
              r < length (keyRequests (handleEncryptedMessage cr payload h))
              \<and> keyRequests (handleEncryptedMessage cr payload h) ! r
                  = \<lparr>target = u, deadline = now h + 10000, timerActive = True,
                     promise = PromisePending, awaiting = Some payload\<rparr>)
         \<and> (\<forall>d. now h2 + int d < now h + 10000 \<longrightarrow>
              promise (keyRequests (advanceTime d h2) ! r) = PromisePending
              \<and> timerActive (keyRequests (advanceTime d h2) ! r))
         \<and> promise (keyRequests (advanceTime ms h2) ! r) = Rejected (Error ''Key request timeout'')
         \<and> \<not> timerActive (keyRequests (advanceTime ms h2) ! r)
         \<and> pendingKeyRequests (advanceTime ms h2) u = None
         \<and> r' \<noteq> r
         \<and> pendingKeyRequests h3 u = Some r'
         \<and> keyRequests h3 ! r' = \<lparr>target = u, deadline = now h2 + int ms + 10000,
                                   timerActive = True, promise = PromisePending, awaiting = None\<rparr>
         \<and> trace h3 = trace (advanceTime ms h2) @
              [Send (KeyRequestFrame \<lparr>requesterId = myUserId (advanceTime ms h2), targetUserId = u\<rparr>)
                 (state (client (advanceTime ms h2)) = Connected)]"
proof -
  let ?new = "\<lparr>target = u, deadline = now h + 10000, timerActive = True,
               promise = PromisePending, awaiting = None\<rparr>"
  from req have rn: "r = length (keyRequests h)"
    and made: "keyRequests h1 ! r = ?new" and entry: "pendingKeyRequests h1 u = Some r"
    by (auto simp: requestPublicKey_eq)
  have caller: "r < length (keyRequests (handleEncryptedMessage cr payload h))
              \<and> keyRequests (handleEncryptedMessage cr payload h) ! r
                  = \<lparr>target = u, deadline = now h + 10000, timerActive = True,
                     promise = PromisePending, awaiting = Some payload\<rparr>"
    if c: "sessions h (senderId_p payload) = None \<and> senderId_p payload = u" for cr payload
  proof -
    from c have n: "sessions h (senderId_p payload) = None" by (rule conjunct1)
    from c have e: "senderId_p payload = u" by (rule conjunct2)
    show ?thesis
      by (subst (1 2) handleEncryptedMessage_no_session [OF n]) (simp add: rn e)
  qed
  from still have r2: "r < length (keyRequests h2)"
    and tg: "target (keyRequests h2 ! r) = u"
    and dl: "deadline (keyRequests h2 ! r) = now h + 10000"
    and ac: "timerActive (keyRequests h2 ! r)"
    and pe: "promise (keyRequests h2 ! r) = PromisePending"
    by blast+
  have before: "promise (keyRequests (advanceTime d h2) ! r) = PromisePending
              \<and> timerActive (keyRequests (advanceTime d h2) ! r)"
    if "now h2 + int d < now h + 10000" for d
    using awaited_request_pending [OF r2, of d] that dl ac pe by simp
  have out: "promise (keyRequests (advanceTime ms h2) ! r) = Rejected (Error ''Key request timeout'')
         \<and> \<not> timerActive (keyRequests (advanceTime ms h2) ! r)
         \<and> pendingKeyRequests (advanceTime ms h2) u = None"
    using awaited_request_rejected [OF r2 ac pe, of ms] tg dl late by simp
  note ln = advanceTime_length_now [of ms h2]
  from again have fresh: "r' = length (keyRequests h2) \<and> pendingKeyRequests h3 u = Some r'
      \<and> keyRequests h3 ! r' = \<lparr>target = u, deadline = now h2 + int ms + 10000,
                                   timerActive = True, promise = PromisePending, awaiting = None\<rparr>
      \<and> trace h3 = trace (advanceTime ms h2) @
              [Send (KeyRequestFrame \<lparr>requesterId = myUserId (advanceTime ms h2), targetUserId = u\<rparr>)
                 (state (client (advanceTime ms h2)) = Connected)]"
    using ln by (auto simp: requestPublicKey_eq nth_append)
  with r2 have ne: "r' \<noteq> r" by simp
  from made entry caller before out ne fresh show ?thesis by blast
qed

theorem key_request_times_out_witness:
  "snd (requestPublicKey ''bob'' aliceHandler) = 0
   \<and> awaiting (keyRequests (handleEncryptedMessage workingCrypto bobFrame aliceHandler) ! 0)
       = Some bobFrame
   \<and> 0 < length (keyRequests (handleEncryptedMessage workingCrypto bobFrame aliceHandler))
   \<and> target (keyRequests (handleEncryptedMessage workingCrypto bobFrame aliceHandler) ! 0) = ''bob''
   \<and> deadline (keyRequests (handleEncryptedMessage workingCrypto bobFrame aliceHandler) ! 0)
       = now aliceHandler + 10000
   \<and> timerActive (keyRequests (handleEncryptedMessage workingCrypto bobFrame aliceHandler) ! 0)
   \<and> promise (keyRequests (handleEncryptedMessage workingCrypto bobFrame aliceHandler) ! 0)
       = PromisePending
   \<and> now aliceHandler + 10000
       \<le> now (handleEncryptedMessage workingCrypto bobFrame aliceHandler) + int 10000
   \<and> promise (keyRequests (advanceTime 10000
          (handleEncryptedMessage workingCrypto bobFrame aliceHandler)) ! 0)
       = Rejected (Error ''Key request timeout'')
   \<and> pendingKeyRequests (advanceTime 10000
          (handleEncryptedMessage workingCrypto bobFrame aliceHandler)) ''bob'' = None
   \<and> snd (requestPublicKey ''bob'' (advanceTime 10000
          (handleEncryptedMessage workingCrypto bobFrame aliceHandler))) \<noteq> 0
   \<and> pendingKeyRequests
        (fst (requestPublicKey ''bob'' (advanceTime 10000
          (handleEncryptedMessage workingCrypto bobFrame aliceHandler)))) ''bob''
       = Some (snd (requestPublicKey ''bob'' (advanceTime 10000
          (handleEncryptedMessage workingCrypto bobFrame aliceHandler))))"
proof -
  let ?h2 = "handleEncryptedMessage workingCrypto bobFrame aliceHandler"
  let ?r = "snd (requestPublicKey ''bob'' aliceHandler)"
  have z: "?r = 0" by (simp add: requestPublicKey_eq aliceHandler_def)
  have n: "sessions aliceHandler (senderId_p bobFrame) = None"
    by (simp add: aliceHandler_def)
  have k: "0 < length (keyRequests ?h2)
      \<and> keyRequests ?h2 ! 0 = \<lparr>target = ''bob'', deadline = now aliceHandler + 10000,
            timerActive = True, promise = PromisePending, awaiting = Some bobFrame\<rparr>
      \<and> now ?h2 = now aliceHandler"
    by (subst (1 2 3) handleEncryptedMessage_no_session [OF n])
       (simp add: aliceHandler_def bobFrame_def)
  from k have f: "awaiting (keyRequests ?h2 ! 0) = Some bobFrame
      \<and> 0 < length (keyRequests ?h2)
      \<and> target (keyRequests ?h2 ! 0) = ''bob''
      \<and> deadline (keyRequests ?h2 ! 0) = now aliceHandler + 10000
      \<and> timerActive (keyRequests ?h2 ! 0)
      \<and> promise (keyRequests ?h2 ! 0) = PromisePending"
    by simp
  with z have still: "?r < length (keyRequests ?h2) \<and> target (keyRequests ?h2 ! ?r) = ''bob''
                \<and> deadline (keyRequests ?h2 ! ?r) = now aliceHandler + 10000
                \<and> timerActive (keyRequests ?h2 ! ?r)
                \<and> promise (keyRequests ?h2 ! ?r) = PromisePending"
    by simp
  from k have late: "now aliceHandler + 10000 \<le> now ?h2 + int 10000" by simp
  note t = key_request_times_out [OF prod.collapse [symmetric] still late prod.collapse [symmetric]]
  from t have a: "promise (keyRequests (advanceTime 10000 ?h2) ! ?r)
                    = Rejected (Error ''Key request timeout'')"
    by blast
  from t have b: "pendingKeyRequests (advanceTime 10000 ?h2) ''bob'' = None"
    by blast
  from t have c: "snd (requestPublicKey ''bob'' (advanceTime 10000 ?h2)) \<noteq> ?r"
    by blast
  from t have d: "pendingKeyRequests (fst (requestPublicKey ''bob'' (advanceTime 10000 ?h2))) ''bob''
                    = Some (snd (requestPublicKey ''bob'' (advanceTime 10000 ?h2)))"
    by blast
  from z a have a0: "promise (keyRequests (advanceTime 10000 ?h2) ! 0)
                    = Rejected (Error ''Key request timeout'')"
    by simp
  from z c have c0: "snd (requestPublicKey ''bob'' (advanceTime 10000 ?h2)) \<noteq> 0"
    by simp
  from z f late a0 b c0 d show ?thesis by blast
qed

subsection \<open>Claim C4\<close>

text \<open>
  C4 reads: for an inbound encrypted message from a peer with a cached session the
  envelope is persisted before the decrypt attempt, and after a failed decryption its
  ciphertext remains stored. The handler decrypts first: for the frame from \<open>bob\<close>, who
  has a session, and a decryption that throws, \<open>onError\<close> is called and the store
  holds no envelope.
\<close>

theorem failed_decrypt_stores_nothing:
  "sessions aliceWithBob (senderId_p bobFrame) = Some bobSession
   \<and> db (store aliceWithBob) = []
   \<and> db (store (handleEncryptedMessage failingCrypto bobFrame aliceWithBob)) = []
   \<and> trace (handleEncryptedMessage failingCrypto bobFrame aliceWithBob)
       = [Callback (OnError ''bad tag'')]"
  by (simp add: handleEncryptedMessage_def catchBlock_def notify_def aliceWithBob_def
        aliceHandler_def bobFrame_def failingCrypto_def emptyStore_def allCallbacks_def)

text \<open>
  C4 as amended: for an inbound encrypted message from a peer with a cached session the
  handler decrypts first. When decryption fails, the failure is reported through
  \<open>onError\<close> when that callback is set, and the message store is left as it was: no
  envelope is persisted for the frame and no stored envelope is changed. When
  decryption succeeds, the envelope is persisted under \<open>msg-<timestamp>\<close> with the
  received ciphertext, then \<open>onMessage\<close> is called and the acknowledgment is sent.
\<close>

theorem decrypt_precedes_persist:
  assumes "sessions h (senderId_p payload) = Some session"
  shows "(\<forall>e. decryptSessionMessage cr session
               \<lparr>sessionId_s = sessionId session, senderId_s = senderId_p payload,
                recipientId_s = myUserId h, ciphertext_s = ciphertext_p payload,
                timestamp_s = timestamp_p payload\<rparr> = Inl e \<longrightarrow>
            store (handleEncryptedMessage cr payload h) = store h
            \<and> trace (handleEncryptedMessage cr payload h)
                = trace h @
                  (if onError (callbacks h)
                   then [Callback (OnError (case e of Error msg \<Rightarrow> msg
                                            | NonError \<Rightarrow> ''Decryption failed''))]
                   else []))
       \<and> (\<forall>plaintext. decryptSessionMessage cr session
               \<lparr>sessionId_s = sessionId session, senderId_s = senderId_p payload,
                recipientId_s = myUserId h, ciphertext_s = ciphertext_p payload,
                timestamp_s = timestamp_p payload\<rparr> = Inr plaintext \<longrightarrow>
            db_get (''msg-'' @ show_int (timestamp_p payload))
                (db (store (handleEncryptedMessage cr payload h)))
              = Some \<lparr>id' = ''msg-'' @ show_int (timestamp_p payload),
                      conversationId = conversationId_p payload, senderId = senderId_p payload,
                      recipientId = myUserId h, ciphertext = ciphertext_p payload,
                      timestamp = timestamp_p payload, synced = False, read = False\<rparr>
            \<and> trace (handleEncryptedMessage cr payload h)
                = trace h @
                  [Persist \<lparr>id' = ''msg-'' @ show_int (timestamp_p payload),
                      conversationId = conversationId_p payload, senderId = senderId_p payload,
                      recipientId = myUserId h, ciphertext = ciphertext_p payload,
                      timestamp = timestamp_p payload, synced = False, read = False\<rparr>]
                  @ (if onMessage (callbacks h)
                     then [Callback (OnMessage
                             \<lparr>id_m = ''msg-'' @ show_int (timestamp_p payload),
                              conversationId_m = conversationId_p payload,
                              senderId_m = senderId_p payload, content = plaintext,
                              timestamp_m = timestamp_p payload, status = Delivered,
                              isEncrypted = True\<rparr>)]
                     else [])
                  @ [Send (MessageAckFrame
                             \<lparr>messageId_a = ''msg-'' @ show_int (timestamp_p payload),
                              conversationId_a = conversationId_p payload, status_a = Delivered\<rparr>)
                       (state (client h) = Connected)])"
proof (intro conjI allI impI)
  fix e
  assume "decryptSessionMessage cr session
               \<lparr>sessionId_s = sessionId session, senderId_s = senderId_p payload,
                recipientId_s = myUserId h, ciphertext_s = ciphertext_p payload,
                timestamp_s = timestamp_p payload\<rparr> = Inl e"
  from handleEncryptedMessage_decrypt_fails [OF assms this]
  show "store (handleEncryptedMessage cr payload h) = store h"
    and "trace (handleEncryptedMessage cr payload h)
                = trace h @
                  (if onError (callbacks h)
                   then [Callback (OnError (case e of Error msg \<Rightarrow> msg
                                            | NonError \<Rightarrow> ''Decryption failed''))]
                   else [])"
    by (simp_all add: catchBlock_def notify_def)
next
  fix plaintext
  assume "decryptSessionMessage cr session
               \<lparr>sessionId_s = sessionId session, senderId_s = senderId_p payload,
                recipientId_s = myUserId h, ciphertext_s = ciphertext_p payload,
                timestamp_s = timestamp_p payload\<rparr> = Inr plaintext"
  note eq = handleEncryptedMessage_decrypts [OF assms this]
  show "db_get (''msg-'' @ show_int (timestamp_p payload))
                (db (store (handleEncryptedMessage cr payload h)))
              = Some \<lparr>id' = ''msg-'' @ show_int (timestamp_p payload),
                      conversationId = conversationId_p payload, senderId = senderId_p payload,
                      recipientId = myUserId h, ciphertext = ciphertext_p payload,
                      timestamp = timestamp_p payload, synced = False, read = False\<rparr>"
    by (simp add: eq db_saveMessage db_get_storeMessage newEnvelope_def)
  show "trace (handleEncryptedMessage cr payload h)
                = trace h @
                  [Persist \<lparr>id' = ''msg-'' @ show_int (timestamp_p payload),
                      conversationId = conversationId_p payload, senderId = senderId_p payload,
                      recipientId = myUserId h, ciphertext = ciphertext_p payload,
                      timestamp = timestamp_p payload, synced = False, read = False\<rparr>]
                  @ (if onMessage (callbacks h)
                     then [Callback (OnMessage
                             \<lparr>id_m = ''msg-'' @ show_int (timestamp_p payload),
                              conversationId_m = conversationId_p payload,
                              senderId_m = senderId_p payload, content = plaintext,
                              timestamp_m = timestamp_p payload, status = Delivered,
                              isEncrypted = True\<rparr>)]
                     else [])
                  @ [Send (MessageAckFrame
                             \<lparr>messageId_a = ''msg-'' @ show_int (timestamp_p payload),
                              conversationId_a = conversationId_p payload, status_a = Delivered\<rparr>)
                       (state (client h) = Connected)]"
    by (simp add: eq newEnvelope_def)
qed

theorem decrypt_precedes_persist_witness:
  "sessions aliceWithBob (senderId_p bobFrame) = Some bobSession
   \<and> decryptSessionMessage failingCrypto bobSession
        \<lparr>sessionId_s = sessionId bobSession, senderId_s = senderId_p bobFrame,
         recipientId_s = myUserId aliceWithBob, ciphertext_s = ciphertext_p bobFrame,
         timestamp_s = timestamp_p bobFrame\<rparr> = Inl (Error ''bad tag'')
   \<and> store (handleEncryptedMessage failingCrypto bobFrame aliceWithBob) = store aliceWithBob
   \<and> trace (handleEncryptedMessage failingCrypto bobFrame aliceWithBob)
       = [Callback (OnError ''bad tag'')]
   \<and> decryptSessionMessage workingCrypto bobSession
        \<lparr>sessionId_s = sessionId bobSession, senderId_s = senderId_p bobFrame,
         recipientId_s = myUserId aliceWithBob, ciphertext_s = ciphertext_p bobFrame,
         timestamp_s = timestamp_p bobFrame\<rparr> = Inr ''dec:CT''
   \<and> db_get ''msg-42'' (db (store (handleEncryptedMessage workingCrypto bobFrame aliceWithBob)))
       = Some \<lparr>id' = ''msg-42'', conversationId = ''c1'', senderId = ''bob'',
               recipientId = ''alice'', ciphertext = ''CT'', timestamp = 42,
               synced = False, read = False\<rparr>"
proof -
  have s: "sessions aliceWithBob (senderId_p bobFrame) = Some bobSession"
    by (simp add: aliceWithBob_def bobFrame_def)
  have f: "decryptSessionMessage failingCrypto bobSession
        \<lparr>sessionId_s = sessionId bobSession, senderId_s = senderId_p bobFrame,
         recipientId_s = myUserId aliceWithBob, ciphertext_s = ciphertext_p bobFrame,
         timestamp_s = timestamp_p bobFrame\<rparr> = Inl (Error ''bad tag'')"
    by (simp add: failingCrypto_def)
  have w: "decryptSessionMessage workingCrypto bobSession
        \<lparr>sessionId_s = sessionId bobSession, senderId_s = senderId_p bobFrame,
         recipientId_s = myUserId aliceWithBob, ciphertext_s = ciphertext_p bobFrame,
         timestamp_s = timestamp_p bobFrame\<rparr> = Inr ''dec:CT''"
    by (simp add: workingCrypto_def bobFrame_def)
  have n: "show_int 42 = ''42''" by code_simp
  have c: "onError (callbacks aliceWithBob) \<and> trace aliceWithBob = []
           \<and> myUserId aliceWithBob = ''alice''"
    by (simp add: aliceWithBob_def aliceHandler_def allCallbacks_def)
  from decrypt_precedes_persist [OF s, of failingCrypto] f c
  have a: "store (handleEncryptedMessage failingCrypto bobFrame aliceWithBob) = store aliceWithBob
      \<and> trace (handleEncryptedMessage failingCrypto bobFrame aliceWithBob)
          = [Callback (OnError ''bad tag'')]"
    by simp
  from decrypt_precedes_persist [OF s, of workingCrypto] w c n
  have b: "db_get ''msg-42'' (db (store (handleEncryptedMessage workingCrypto bobFrame aliceWithBob)))
       = Some \<lparr>id' = ''msg-42'', conversationId = ''c1'', senderId = ''bob'',
               recipientId = ''alice'', ciphertext = ''CT'', timestamp = 42,
               synced = False, read = False\<rparr>"
    by (simp add: bobFrame_def)
  from s f w a b show ?thesis by blast
qed

subsection \<open>Claim C6\<close>

text \<open>
  C6 reads: processing the same inbound message frame twice neither creates a second
  persisted envelope nor fires \<open>onMessage\<close> a second time. The frame from \<open>bob\<close> is
  processed twice: \<open>onMessage\<close> is called twice, and the envelope is handed to
  \<open>saveMessage\<close> twice.
\<close>

theorem second_processing_fires_onMessage_again:
  "trace (handleEncryptedMessage workingCrypto bobFrame aliceWithBob)
     = [Persist \<lparr>id' = ''msg-42'', conversationId = ''c1'', senderId = ''bob'',
                 recipientId = ''alice'', ciphertext = ''CT'', timestamp = 42,
                 synced = False, read = False\<rparr>,
        Callback (OnMessage \<lparr>id_m = ''msg-42'', conversationId_m = ''c1'', senderId_m = ''bob'',
                             content = ''dec:CT'', timestamp_m = 42, status = Delivered,
                             isEncrypted = True\<rparr>),
        Send (MessageAckFrame \<lparr>messageId_a = ''msg-42'', conversationId_a = ''c1'',
                               status_a = Delivered\<rparr>) True]
   \<and> trace (handleEncryptedMessage workingCrypto bobFrame
              (handleEncryptedMessage workingCrypto bobFrame aliceWithBob))
     = [Persist \<lparr>id' = ''msg-42'', conversationId = ''c1'', senderId = ''bob'',
                 recipientId = ''alice'', ciphertext = ''CT'', timestamp = 42,
                 synced = False, read = False\<rparr>,
        Callback (OnMessage \<lparr>id_m = ''msg-42'', conversationId_m = ''c1'', senderId_m = ''bob'',
                             content = ''dec:CT'', timestamp_m = 42, status = Delivered,
                             isEncrypted = True\<rparr>),
        Send (MessageAckFrame \<lparr>messageId_a = ''msg-42'', conversationId_a = ''c1'',
                               status_a = Delivered\<rparr>) True,
        Persist \<lparr>id' = ''msg-42'', conversationId = ''c1'', senderId = ''bob'',
                 recipientId = ''alice'', ciphertext = ''CT'', timestamp = 42,
                 synced = False, read = False\<rparr>,
        Callback (OnMessage \<lparr>id_m = ''msg-42'', conversationId_m = ''c1'', senderId_m = ''bob'',
                             content = ''dec:CT'', timestamp_m = 42, status = Delivered,
                             isEncrypted = True\<rparr>),
        Send (MessageAckFrame \<lparr>messageId_a = ''msg-42'', conversationId_a = ''c1'',
                               status_a = Delivered\<rparr>) True]"
proof -
  have n: "show_int 42 = ''42''" by code_simp
  show ?thesis
    by (simp add: handleEncryptedMessage_def persist_eq notify_def clientSend_def send_def Let_def
          newEnvelope_def aliceWithBob_def aliceHandler_def bobFrame_def workingCrypto_def
          allCallbacks_def bobSession_def n)
qed

text \<open>
  C6 as amended: when the sender has a cached session and decryption succeeds, the
  second processing of a frame leaves the message store exactly as the first left it
  (the envelope \<open>msg-<timestamp>\<close> is put again, over itself), and it calls \<open>onMessage\<close>
  again when that callback is set and sends the acknowledgment again.
\<close>

theorem second_processing_rewrites_same_envelope:
  assumes s: "sessions h (senderId_p payload) = Some session"
    and d: "decryptSessionMessage cr session
               \<lparr>sessionId_s = sessionId session, senderId_s = senderId_p payload,
                recipientId_s = myUserId h, ciphertext_s = ciphertext_p payload,
                timestamp_s = timestamp_p payload\<rparr> = Inr plaintext"
  shows "store (handleEncryptedMessage cr payload (handleEncryptedMessage cr payload h))
           = store (handleEncryptedMessage cr payload h)
         \<and> trace (handleEncryptedMessage cr payload (handleEncryptedMessage cr payload h))
           = trace (handleEncryptedMessage cr payload h) @
               [Persist \<lparr>id' = ''msg-'' @ show_int (timestamp_p payload),
                   conversationId = conversationId_p payload, senderId = senderId_p payload,
                   recipientId = myUserId h, ciphertext = ciphertext_p payload,
                   timestamp = timestamp_p payload, synced = False, read = False\<rparr>]
               @ (if onMessage (callbacks h)
                  then [Callback (OnMessage
                          \<lparr>id_m = ''msg-'' @ show_int (timestamp_p payload),
                           conversationId_m = conversationId_p payload,
                           senderId_m = senderId_p payload, content = plaintext,
                           timestamp_m = timestamp_p payload, status = Delivered,
                           isEncrypted = True\<rparr>)]
                  else [])
               @ [Send (MessageAckFrame
                          \<lparr>messageId_a = ''msg-'' @ show_int (timestamp_p payload),
                           conversationId_a = conversationId_p payload, status_a = Delivered\<rparr>)
                    (state (client h) = Connected)]"
proof -
  let ?h1 = "handleEncryptedMessage cr payload h"
  note first = handleEncryptedMessage_decrypts [OF s d]
  have same: "sessions ?h1 = sessions h \<and> myUserId ?h1 = myUserId h
              \<and> callbacks ?h1 = callbacks h \<and> client ?h1 = client h"
    by (simp add: first)
  from s same have s1: "sessions ?h1 (senderId_p payload) = Some session" by simp
  from d same have d1: "decryptSessionMessage cr session
               \<lparr>sessionId_s = sessionId session, senderId_s = senderId_p payload,
                recipientId_s = myUserId ?h1, ciphertext_s = ciphertext_p payload,
                timestamp_s = timestamp_p payload\<rparr> = Inr plaintext" by simp
  note second = handleEncryptedMessage_decrypts [OF s1 d1]
  have st: "store ?h1 = fst (saveMessage
                   (newEnvelope (''msg-'' @ show_int (timestamp_p payload)) (conversationId_p payload)
                      (senderId_p payload) (myUserId h) (ciphertext_p payload) (timestamp_p payload))
                   (store h))"
    by (simp add: first)
  have "store (handleEncryptedMessage cr payload ?h1) = store ?h1"
    by (subst second) (simp add: same st saveMessage_twice)
  moreover have "trace (handleEncryptedMessage cr payload ?h1)
           = trace ?h1 @
               [Persist \<lparr>id' = ''msg-'' @ show_int (timestamp_p payload),
                   conversationId = conversationId_p payload, senderId = senderId_p payload,
                   recipientId = myUserId h, ciphertext = ciphertext_p payload,
                   timestamp = timestamp_p payload, synced = False, read = False\<rparr>]
               @ (if onMessage (callbacks h)
                  then [Callback (OnMessage
                          \<lparr>id_m = ''msg-'' @ show_int (timestamp_p payload),
                           conversationId_m = conversationId_p payload,
                           senderId_m = senderId_p payload, content = plaintext,
                           timestamp_m = timestamp_p payload, status = Delivered,
                           isEncrypted = True\<rparr>)]
                  else [])
               @ [Send (MessageAckFrame
                          \<lparr>messageId_a = ''msg-'' @ show_int (timestamp_p payload),
                           conversationId_a = conversationId_p payload, status_a = Delivered\<rparr>)
                    (state (client h) = Connected)]"
    by (subst second) (simp add: same newEnvelope_def)
  ultimately show ?thesis by blast
qed

theorem second_processing_rewrites_same_envelope_witness:
  "sessions aliceWithBob (senderId_p bobFrame) = Some bobSession
   \<and> decryptSessionMessage workingCrypto bobSession
        \<lparr>sessionId_s = sessionId bobSession, senderId_s = senderId_p bobFrame,
         recipientId_s = myUserId aliceWithBob, ciphertext_s = ciphertext_p bobFrame,
         timestamp_s = timestamp_p bobFrame\<rparr> = Inr ''dec:CT''
   \<and> store (handleEncryptedMessage workingCrypto bobFrame
              (handleEncryptedMessage workingCrypto bobFrame aliceWithBob))
       = store (handleEncryptedMessage workingCrypto bobFrame aliceWithBob)
   \<and> db (store (handleEncryptedMessage workingCrypto bobFrame aliceWithBob))
       = [\<lparr>id' = ''msg-42'', conversationId = ''c1'', senderId = ''bob'',
           recipientId = ''alice'', ciphertext = ''CT'', timestamp = 42,
           synced = False, read = False\<rparr>]"
proof -
  have s: "sessions aliceWithBob (senderId_p bobFrame) = Some bobSession"
    by (simp add: aliceWithBob_def bobFrame_def)
  have w: "decryptSessionMessage workingCrypto bobSession
        \<lparr>sessionId_s = sessionId bobSession, senderId_s = senderId_p bobFrame,
         recipientId_s = myUserId aliceWithBob, ciphertext_s = ciphertext_p bobFrame,
         timestamp_s = timestamp_p bobFrame\<rparr> = Inr ''dec:CT''"
    by (simp add: workingCrypto_def bobFrame_def)
  have n: "show_int 42 = ''42''" by code_simp
  have b: "db (store (handleEncryptedMessage workingCrypto bobFrame aliceWithBob))
       = [\<lparr>id' = ''msg-42'', conversationId = ''c1'', senderId = ''bob'',
           recipientId = ''alice'', ciphertext = ''CT'', timestamp = 42,
           synced = False, read = False\<rparr>]"
    by (subst handleEncryptedMessage_decrypts [OF s w])
       (simp add: db_saveMessage newEnvelope_def n
          bobFrame_def aliceWithBob_def aliceHandler_def emptyStore_def)
  from second_processing_rewrites_same_envelope [OF s w] s w b
  show ?thesis by blast
qed

subsection \<open>Sending\<close>

lemma establishSession_eq:
  assumes "myKeyPair h = Some kp"
  shows "establishSession cr peer pk fp h =
     (case establishSecureSession cr kp pk fp of
        Inl e \<Rightarrow> (h, Inl e)
      | Inr session \<Rightarrow>
          (h\<lparr>sessions := (sessions h)(peer \<mapsto> session),
             savedSessions := storeSession
                \<lparr>id_ss = sessionId session, peerId = peer, peerPublicKey = pk,
                 peerFingerprint = fp, createdAt_ss = createdAt session,
                 lastActivity = now h\<rparr> (savedSessions h),
             trace := trace h @ (if onSessionEstablished (callbacks h)
                                 then [Callback (OnSessionEstablished peer)] else [])\<rparr>,
           Inr session))"
  using assms by (simp add: establishSession_def notify_def Let_def split: sum.splits)

lemma sendMessage_session_fails:
  assumes kp: "myKeyPair h = Some kp" and uid: "myUserId h \<noteq> []"
    and step: "(case sessions h recipient of Some s \<Rightarrow> Inr s
                | None \<Rightarrow> establishSecureSession cr kp pk fp) = Inl e"
  shows "sendMessage cr rnd recipient conv content' pk fp h = (h, Inl e)"
  using assms
  by (auto simp: sendMessage_def establishSession_eq Let_def split: option.splits sum.splits)

lemma sendMessage_encrypt_fails:
  assumes kp: "myKeyPair h = Some kp" and uid: "myUserId h \<noteq> []"
    and step: "(case sessions h recipient of Some s \<Rightarrow> Inr s
                | None \<Rightarrow> establishSecureSession cr kp pk fp) = Inr session"
    and enc: "encryptSessionMessage cr session (myUserId h) recipient content' = Inl e"
  shows "snd (sendMessage cr rnd recipient conv content' pk fp h) = Inl e
         \<and> store (fst (sendMessage cr rnd recipient conv content' pk fp h)) = store h
         \<and> trace (fst (sendMessage cr rnd recipient conv content' pk fp h))
             = trace h @ (if sessions h recipient = None \<and> onSessionEstablished (callbacks h)
                          then [Callback (OnSessionEstablished recipient)] else [])"
  using assms
  by (auto simp: sendMessage_def establishSession_eq Let_def split: option.splits sum.splits)

lemma sendMessage_succeeds:
  assumes kp: "myKeyPair h = Some kp" and uid: "myUserId h \<noteq> []"
    and step: "(case sessions h recipient of Some s \<Rightarrow> Inr s
                | None \<Rightarrow> establishSecureSession cr kp pk fp) = Inr session"
    and enc: "encryptSessionMessage cr session (myUserId h) recipient content' = Inr ct"
  shows "snd (sendMessage cr rnd recipient conv content' pk fp h)
           = Inr \<lparr>id_m = ''msg-'' @ show_int (now h) @ ''-'' @ rnd, conversationId_m = conv,
                  senderId_m = myUserId h, content = content', timestamp_m = now h,
                  status = (if state (client h) = Connected then Sent else Sending),
                  isEncrypted = True\<rparr>
         \<and> db_get (''msg-'' @ show_int (now h) @ ''-'' @ rnd)
               (db (store (fst (sendMessage cr rnd recipient conv content' pk fp h))))
           = Some \<lparr>id' = ''msg-'' @ show_int (now h) @ ''-'' @ rnd, conversationId = conv,
                   senderId = myUserId h, recipientId = recipient, ciphertext = ct,
                   timestamp = now h, synced = False, read = False\<rparr>
         \<and> trace (fst (sendMessage cr rnd recipient conv content' pk fp h))
           = trace h @ (if sessions h recipient = None \<and> onSessionEstablished (callbacks h)
                        then [Callback (OnSessionEstablished recipient)] else [])
             @ [Persist \<lparr>id' = ''msg-'' @ show_int (now h) @ ''-'' @ rnd, conversationId = conv,
                   senderId = myUserId h, recipientId = recipient, ciphertext = ct,
                   timestamp = now h, synced = False, read = False\<rparr>,
                Send (MessageFrame \<lparr>conversationId_p = conv, senderId_p = myUserId h,
                        recipientId_p = recipient, ciphertext_p = ct, timestamp_p = now h\<rparr>)
                  (state (client h) = Connected)]"
proof (cases "sessions h recipient")
  case None
  with step have est: "establishSecureSession cr kp pk fp = Inr session" by simp
  show ?thesis
    using kp uid enc None est
    by (simp add: sendMessage_def establishSession_eq Let_def persist_eq clientSend_def send_def
          newEnvelope_def db_saveMessage db_get_storeMessage)
next
  case (Some s)
  with step have "s = session" by simp
  with Some show ?thesis
    using kp uid enc
    by (simp add: sendMessage_def Let_def persist_eq clientSend_def send_def
          newEnvelope_def db_saveMessage db_get_storeMessage)
qed

subsection \<open>Claim C5\<close>

text \<open>
  C5 reads: for every call of \<open>sendMessage\<close> on an initialized handler the envelope is
  persisted with \<open>synced:false\<close> before the transport send, and the message returned
  has status \<open>sent\<close> or \<open>sending\<close> by the result of the send. On the initialized
  handler of \<open>alice\<close>, with no session for \<open>bob\<close> and a session establishment that
  throws, \<open>sendMessage\<close> throws: no message is returned, nothing is persisted and
  nothing is sent.
\<close>

theorem sendMessage_throws_before_persisting:
  "myKeyPair aliceHandler = Some aliceKeys \<and> myUserId aliceHandler = ''alice''
   \<and> snd (sendMessage failingCrypto ''r4nd'' ''bob'' ''c1'' ''hello'' ''PK'' ''FP'' aliceHandler)
       = Inl (Error ''invalid key'')
   \<and> db (store (fst (sendMessage failingCrypto ''r4nd'' ''bob'' ''c1'' ''hello'' ''PK'' ''FP'' aliceHandler)))
       = []
   \<and> trace (fst (sendMessage failingCrypto ''r4nd'' ''bob'' ''c1'' ''hello'' ''PK'' ''FP'' aliceHandler))
       = []"
  by (simp add: sendMessage_def establishSession_def aliceHandler_def failingCrypto_def
        emptyStore_def)

text \<open>
  C5 as amended: on an initialized handler, when the session is cached or its
  establishment succeeds, and the encryption succeeds, \<open>sendMessage\<close> persists the
  envelope with \<open>synced:false\<close> and the ciphertext, then calls \<open>client.send\<close> with the
  \<open>message\<close> frame, and returns the message with status \<open>sent\<close> when the send returned
  true and \<open>sending\<close> otherwise. When the establishment or the encryption throws,
  \<open>sendMessage\<close> throws the same, with the store as it was and no send.
\<close>

theorem sendMessage_persists_then_sends:
  assumes kp: "myKeyPair h = Some kp" and uid: "myUserId h \<noteq> []"
  shows "(\<forall>e. (case sessions h recipient of Some s \<Rightarrow> Inr s
                | None \<Rightarrow> establishSecureSession cr kp pk fp) = Inl e \<longrightarrow>
            sendMessage cr rnd recipient conv content' pk fp h = (h, Inl e))
       \<and> (\<forall>session e.
            (case sessions h recipient of Some s \<Rightarrow> Inr s
             | None \<Rightarrow> establishSecureSession cr kp pk fp) = Inr session
            \<and> encryptSessionMessage cr session (myUserId h) recipient content' = Inl e \<longrightarrow>
            snd (sendMessage cr rnd recipient conv content' pk fp h) = Inl e
            \<and> store (fst (sendMessage cr rnd recipient conv content' pk fp h)) = store h
            \<and> trace (fst (sendMessage cr rnd recipient conv content' pk fp h))
                = trace h @ (if sessions h recipient = None \<and> onSessionEstablished (callbacks h)
                             then [Callback (OnSessionEstablished recipient)] else []))
       \<and> (\<forall>session ct.
            (case sessions h recipient of Some s \<Rightarrow> Inr s
             | None \<Rightarrow> establishSecureSession cr kp pk fp) = Inr session
            \<and> encryptSessionMessage cr session (myUserId h) recipient content' = Inr ct \<longrightarrow>
            snd (sendMessage cr rnd recipient conv content' pk fp h)
              = Inr \<lparr>id_m = ''msg-'' @ show_int (now h) @ ''-'' @ rnd, conversationId_m = conv,
                     senderId_m = myUserId h, content = content', timestamp_m = now h,
                     status = (if state (client h) = Connected then Sent else Sending),
                     isEncrypted = True\<rparr>
            \<and> db_get (''msg-'' @ show_int (now h) @ ''-'' @ rnd)
                  (db (store (fst (sendMessage cr rnd recipient conv content' pk fp h))))
              = Some \<lparr>id' = ''msg-'' @ show_int (now h) @ ''-'' @ rnd, conversationId = conv,
                      senderId = myUserId h, recipientId = recipient, ciphertext = ct,
                      timestamp = now h, synced = False, read = False\<rparr>
            \<and> trace (fst (sendMessage cr rnd recipient conv content' pk fp h))
              = trace h @ (if sessions h recipient = None \<and> onSessionEstablished (callbacks h)
                           then [Callback (OnSessionEstablished recipient)] else [])
                @ [Persist \<lparr>id' = ''msg-'' @ show_int (now h) @ ''-'' @ rnd, conversationId = conv,
                      senderId = myUserId h, recipientId = recipient, ciphertext = ct,
                      timestamp = now h, synced = False, read = False\<rparr>,
                   Send (MessageFrame \<lparr>conversationId_p = conv, senderId_p = myUserId h,
                           recipientId_p = recipient, ciphertext_p = ct, timestamp_p = now h\<rparr>)
                     (state (client h) = Connected)])"
proof (intro conjI allI impI)
  fix e
  assume "(case sessions h recipient of Some s \<Rightarrow> Inr s
           | None \<Rightarrow> establishSecureSession cr kp pk fp) = Inl e"
  then show "sendMessage cr rnd recipient conv content' pk fp h = (h, Inl e)"
    by (rule sendMessage_session_fails [OF kp uid])
next
  fix session e
  assume a: "(case sessions h recipient of Some s \<Rightarrow> Inr s
              | None \<Rightarrow> establishSecureSession cr kp pk fp) = Inr session
             \<and> encryptSessionMessage cr session (myUserId h) recipient content' = Inl e"
  note r = sendMessage_encrypt_fails [OF kp uid conjunct1 [OF a] conjunct2 [OF a]]
  from r show "snd (sendMessage cr rnd recipient conv content' pk fp h) = Inl e" by blast
  from r show "store (fst (sendMessage cr rnd recipient conv content' pk fp h)) = store h" by blast
  from r show "trace (fst (sendMessage cr rnd recipient conv content' pk fp h))
                = trace h @ (if sessions h recipient = None \<and> onSessionEstablished (callbacks h)
                             then [Callback (OnSessionEstablished recipient)] else [])" by blast
next
  fix session ct
  assume a: "(case sessions h recipient of Some s \<Rightarrow> Inr s
              | None \<Rightarrow> establishSecureSession cr kp pk fp) = Inr session
             \<and> encryptSessionMessage cr session (myUserId h) recipient content' = Inr ct"
  note r = sendMessage_succeeds [OF kp uid conjunct1 [OF a] conjunct2 [OF a]]
  from r show "snd (sendMessage cr rnd recipient conv content' pk fp h)
              = Inr \<lparr>id_m = ''msg-'' @ show_int (now h) @ ''-'' @ rnd, conversationId_m = conv,
                     senderId_m = myUserId h, content = content', timestamp_m = now h,
                     status = (if state (client h) = Connected then Sent else Sending),
                     isEncrypted = True\<rparr>" by blast
  from r show "db_get (''msg-'' @ show_int (now h) @ ''-'' @ rnd)
                  (db (store (fst (sendMessage cr rnd recipient conv content' pk fp h))))
              = Some \<lparr>id' = ''msg-'' @ show_int (now h) @ ''-'' @ rnd, conversationId = conv,
                      senderId = myUserId h, recipientId = recipient, ciphertext = ct,
                      timestamp = now h, synced = False, read = False\<rparr>" by blast
  from r show "trace (fst (sendMessage cr rnd recipient conv content' pk fp h))
              = trace h @ (if sessions h recipient = None \<and> onSessionEstablished (callbacks h)
                           then [Callback (OnSessionEstablished recipient)] else [])
                @ [Persist \<lparr>id' = ''msg-'' @ show_int (now h) @ ''-'' @ rnd, conversationId = conv,
                      senderId = myUserId h, recipientId = recipient, ciphertext = ct,
                      timestamp = now h, synced = False, read = False\<rparr>,
                   Send (MessageFrame \<lparr>conversationId_p = conv, senderId_p = myUserId h,
                           recipientId_p = recipient, ciphertext_p = ct, timestamp_p = now h\<rparr>)
                     (state (client h) = Connected)]" by blast
qed

theorem sendMessage_persists_then_sends_witness:
  "myKeyPair aliceHandler = Some aliceKeys \<and> myUserId aliceHandler \<noteq> []
   \<and> (case sessions aliceHandler ''bob'' of Some s \<Rightarrow> Inr s
       | None \<Rightarrow> establishSecureSession workingCrypto aliceKeys ''PK'' ''FP'')
       = Inr \<lparr>sessionId = ''s-FP'', createdAt = 0\<rparr>
   \<and> encryptSessionMessage workingCrypto \<lparr>sessionId = ''s-FP'', createdAt = 0\<rparr>
        (myUserId aliceHandler) ''bob'' ''hello'' = Inr ''enc:hello''
   \<and> snd (sendMessage workingCrypto ''r4nd'' ''bob'' ''c1'' ''hello'' ''PK'' ''FP'' aliceHandler)
       = Inr \<lparr>id_m = ''msg-1000-r4nd'', conversationId_m = ''c1'', senderId_m = ''alice'',
              content = ''hello'', timestamp_m = 1000, status = Sent, isEncrypted = True\<rparr>
   \<and> snd (sendMessage workingCrypto ''r4nd'' ''bob'' ''c1'' ''hello'' ''PK'' ''FP'' aliceOffline)
       = Inr \<lparr>id_m = ''msg-1000-r4nd'', conversationId_m = ''c1'', senderId_m = ''alice'',
              content = ''hello'', timestamp_m = 1000, status = Sending, isEncrypted = True\<rparr>
   \<and> trace (fst (sendMessage workingCrypto ''r4nd'' ''bob'' ''c1'' ''hello'' ''PK'' ''FP'' aliceOffline))
       = [Callback (OnSessionEstablished ''bob''),
          Persist \<lparr>id' = ''msg-1000-r4nd'', conversationId = ''c1'', senderId = ''alice'',
                   recipientId = ''bob'', ciphertext = ''enc:hello'', timestamp = 1000,
                   synced = False, read = False\<rparr>,
          Send (MessageFrame \<lparr>conversationId_p = ''c1'', senderId_p = ''alice'',
                  recipientId_p = ''bob'', ciphertext_p = ''enc:hello'', timestamp_p = 1000\<rparr>)
            False]"
proof -
  have n: "show_int 1000 = ''1000''" by code_simp
  have a: "myKeyPair aliceHandler = Some aliceKeys \<and> myUserId aliceHandler = ''alice''
      \<and> sessions aliceHandler ''bob'' = None \<and> now aliceHandler = 1000
      \<and> state (client aliceHandler) = Connected \<and> trace aliceHandler = []
      \<and> onSessionEstablished (callbacks aliceHandler)"
    by (simp add: aliceHandler_def allCallbacks_def)
  have b: "myKeyPair aliceOffline = Some aliceKeys \<and> myUserId aliceOffline = ''alice''
      \<and> sessions aliceOffline ''bob'' = None \<and> now aliceOffline = 1000
      \<and> state (client aliceOffline) = Disconnected \<and> trace aliceOffline = []
      \<and> onSessionEstablished (callbacks aliceOffline)"
    by (simp add: aliceOffline_def aliceHandler_def allCallbacks_def)
  have c: "establishSecureSession workingCrypto aliceKeys ''PK'' ''FP''
             = Inr \<lparr>sessionId = ''s-FP'', createdAt = 0\<rparr>
      \<and> encryptSessionMessage workingCrypto \<lparr>sessionId = ''s-FP'', createdAt = 0\<rparr>
            ''alice'' ''bob'' ''hello'' = Inr ''enc:hello''"
    by (simp add: workingCrypto_def)
  have u: "''alice'' \<noteq> []" by simp
  from a have kpa: "myKeyPair aliceHandler = Some aliceKeys" and ua: "myUserId aliceHandler \<noteq> []"
    by simp_all
  from b have kpb: "myKeyPair aliceOffline = Some aliceKeys" and ub: "myUserId aliceOffline \<noteq> []"
    by simp_all
  from sendMessage_persists_then_sends [OF kpa ua, where recipient = "''bob''" and cr = workingCrypto
      and pk = "''PK''" and fp = "''FP''" and rnd = "''r4nd''" and conv = "''c1''"
      and content' = "''hello''"] a c n
  have x: "snd (sendMessage workingCrypto ''r4nd'' ''bob'' ''c1'' ''hello'' ''PK'' ''FP'' aliceHandler)
       = Inr \<lparr>id_m = ''msg-1000-r4nd'', conversationId_m = ''c1'', senderId_m = ''alice'',
              content = ''hello'', timestamp_m = 1000, status = Sent, isEncrypted = True\<rparr>"
    by simp
  from sendMessage_persists_then_sends [OF kpb ub, where recipient = "''bob''" and cr = workingCrypto
      and pk = "''PK''" and fp = "''FP''" and rnd = "''r4nd''" and conv = "''c1''"
      and content' = "''hello''"] b c n
  have y: "snd (sendMessage workingCrypto ''r4nd'' ''bob'' ''c1'' ''hello'' ''PK'' ''FP'' aliceOffline)
       = Inr \<lparr>id_m = ''msg-1000-r4nd'', conversationId_m = ''c1'', senderId_m = ''alice'',
              content = ''hello'', timestamp_m = 1000, status = Sending, isEncrypted = True\<rparr>
     \<and> trace (fst (sendMessage workingCrypto ''r4nd'' ''bob'' ''c1'' ''hello'' ''PK'' ''FP'' aliceOffline))
       = [Callback (OnSessionEstablished ''bob''),
          Persist \<lparr>id' = ''msg-1000-r4nd'', conversationId = ''c1'', senderId = ''alice'',
                   recipientId = ''bob'', ciphertext = ''enc:hello'', timestamp = 1000,
                   synced = False, read = False\<rparr>,
          Send (MessageFrame \<lparr>conversationId_p = ''c1'', senderId_p = ''alice'',
                  recipientId_p = ''bob'', ciphertext_p = ''enc:hello'', timestamp_p = 1000\<rparr>)
            False]"
    by simp
  from a c x y show ?thesis by simp
qed

subsection \<open>Sync on reconnect\<close>

lemma syncLoop_frame:
  "client (syncLoop ms h) = client h \<and> callbacks (syncLoop ms h) = callbacks h"
  by (induction ms arbitrary: h) (simp_all add: syncStep_def clientSend_def Let_def)

lemma syncLoop_trace:
  "trace (syncLoop ms h) = trace h @
     map (\<lambda>m. Send (MessageFrame
                 \<lparr>conversationId_p = conversationId m, senderId_p = senderId m,
                  recipientId_p = recipientId m, ciphertext_p = ciphertext m,
                  timestamp_p = timestamp m\<rparr>) (state (client h) = Connected)) ms"
  by (induction ms arbitrary: h) (simp_all add: syncStep_def clientSend_def send_def Let_def)

lemma syncLoop_db_get:
  "db_get k (db (store (syncLoop ms h))) =
     (if state (client h) = Connected \<and> k \<in> id' ` set ms
      then map_option (\<lambda>m. m\<lparr>synced := True\<rparr>) (db_get k (db (store h)))
      else db_get k (db (store h)))"
proof (induction ms arbitrary: h)
  case Nil
  then show ?case by simp
next
  case (Cons msg ms)
  show ?case
  proof (cases "state (client h) = Connected")
    case True
    then show ?thesis
      using Cons.IH [of "h\<lparr>trace := trace h @ [Send (MessageFrame
                 \<lparr>conversationId_p = conversationId msg, senderId_p = senderId msg,
                  recipientId_p = recipientId msg, ciphertext_p = ciphertext msg,
                  timestamp_p = timestamp msg\<rparr>) True],
              store := markSynced (id' msg) (store h)\<rparr>"]
      by (cases "db_get k (db (store h))")
         (auto simp: syncStep_def clientSend_def send_def Let_def db_get_markSynced)
  next
    case False
    then show ?thesis
      using Cons.IH [of "h\<lparr>trace := trace h @ [Send (MessageFrame
                 \<lparr>conversationId_p = conversationId msg, senderId_p = senderId msg,
                  recipientId_p = recipientId msg, ciphertext_p = ciphertext msg,
                  timestamp_p = timestamp msg\<rparr>) False]\<rparr>"]
      by (simp add: syncStep_def clientSend_def send_def Let_def)
  qed
qed

lemma syncLoop_not_connected:
  "state (client h) \<noteq> Connected \<Longrightarrow> store (syncLoop ms h) = store h"
  by (induction ms arbitrary: h) (simp_all add: syncStep_def clientSend_def send_def Let_def)

lemma ids_storeMessage:
  "map id' (storeMessage m t) = (if id' m \<in> id' ` set t then map id' t else map id' t @ [id' m])"
  by (induction t) auto

lemma ids_markMessageSynced: "map id' (markMessageSynced k t) = map id' t"
proof (cases "db_get k t")
  case None
  then show ?thesis by (simp add: markMessageSynced_def)
next
  case (Some m)
  then have "id' m = k" and "m \<in> set t"
    by (auto simp: db_get_def find_Some_iff)
  with Some show ?thesis
    by (auto simp: markMessageSynced_def ids_storeMessage)
qed

lemma ids_syncLoop: "map id' (db (store (syncLoop ms h))) = map id' (db (store h))"
  by (induction ms arbitrary: h)
     (simp_all add: syncStep_def clientSend_def Let_def markSynced_def ids_markMessageSynced)

lemma db_get_member: "db_get k t = Some m \<Longrightarrow> m \<in> set t"
  by (auto simp: db_get_def find_Some_iff)

lemma db_get_distinct:
  "distinct (map id' t) \<Longrightarrow> m \<in> set t \<Longrightarrow> db_get (id' m) t = Some m"
  by (induction t) (auto simp: db_get_def)

lemma syncLoop_keeps_distinct:
  assumes d: "distinct (map id' (db (store h)))"
  shows "distinct (map id' (db (store (syncLoop (getUnsyncedMessages (db (store h))) h))))"
  using d by (simp add: ids_syncLoop)

lemma no_unsynced_when_all_synced:
  assumes "\<And>m. m \<in> set t \<Longrightarrow> synced m"
  shows "getUnsyncedMessages t = []"
  using assms by (simp add: getUnsyncedMessages_def filter_empty_conv)

lemma syncLoop_marks_sent:
  assumes c: "state (client h) = Connected"
   and T: "id' m \<in> id' ` set (getUnsyncedMessages (db (store h)))"
  shows "db_get (id' m) (db (store (syncLoop (getUnsyncedMessages (db (store h))) h))) = map_option (\<lambda>x. x\<lparr>synced := True\<rparr>) (db_get (id' m) (db (store h)))"
  by (simp only: syncLoop_db_get c T simp_thms if_True)

lemma marked_is_synced:
  assumes "map_option (\<lambda>x. x\<lparr>synced := True\<rparr>) xo = Some (m::StoredMessage)"
  shows "synced m"
proof (cases xo)
  case None
  with assms show ?thesis by simp
next
  case (Some x)
  with assms have "x\<lparr>synced := True\<rparr> = m" by simp
  then have "synced m = synced (x\<lparr>synced := True\<rparr>)" by (rule arg_cong [OF sym])
  then show ?thesis by simp
qed

lemma syncLoop_leaves_others:
  assumes F: "id' m \<notin> id' ` set (getUnsyncedMessages (db (store h)))"
  shows "db_get (id' m) (db (store (syncLoop (getUnsyncedMessages (db (store h))) h))) = db_get (id' m) (db (store h))"
  by (simp only: syncLoop_db_get F simp_thms if_False)

lemma syncLoop_all_synced:
  assumes d: "distinct (map id' (db (store h)))" and c: "state (client h) = Connected"
  shows "getUnsyncedMessages (db (store (syncLoop (getUnsyncedMessages (db (store h))) h))) = []"
proof (rule no_unsynced_when_all_synced)
  fix m
  assume m: "m \<in> set (db (store (syncLoop (getUnsyncedMessages (db (store h))) h)))"
  from db_get_distinct [OF syncLoop_keeps_distinct [OF d] m]
  have g: "db_get (id' m) (db (store (syncLoop (getUnsyncedMessages (db (store h))) h))) = Some m" .
  show "synced m"
  proof (cases "id' m \<in> id' ` set (getUnsyncedMessages (db (store h)))")
    case True
    from syncLoop_marks_sent [OF c True] g
    have "map_option (\<lambda>x. x\<lparr>synced := True\<rparr>) (db_get (id' m) (db (store h))) = Some m"
      by (rule trans [OF sym])
    then show ?thesis by (rule marked_is_synced)
  next
    case False
    from syncLoop_leaves_others [OF False] g have "db_get (id' m) (db (store h)) = Some m"
      by (rule trans [OF sym])
    then have mt: "m \<in> set (db (store h))" by (rule db_get_member)
    show ?thesis
    proof (rule ccontr)
      assume "\<not> synced m"
      with mt have "m \<in> set (getUnsyncedMessages (db (store h)))"
        by (simp add: getUnsyncedMessages_def)
      then have "id' m \<in> id' ` set (getUnsyncedMessages (db (store h)))" by (rule imageI)
      with False show False by contradiction
    qed
  qed
qed

lemma connectionTransition_Connected:
  "connectionTransition Connected h =
     syncLoop (getUnsyncedMessages (db (store h)))
       (h\<lparr>client := (client h)\<lparr>state := Connected\<rparr>,
          trace := trace h @ (if onConnectionChange (callbacks h)
                              then [Callback (OnConnectionChange Connected)] else []),
          store := init (store h)\<rparr>)"
  by (simp add: connectionTransition_def connectionChangeListener_def notify_def
        syncPendingMessages_def getUnsynced_def Let_def)

lemma syncStep_eq:
  "syncStep msg h =
     h\<lparr>trace := trace h @ [Send (MessageFrame
                 \<lparr>conversationId_p = conversationId msg, senderId_p = senderId msg,
                  recipientId_p = recipientId msg, ciphertext_p = ciphertext msg,
                  timestamp_p = timestamp msg\<rparr>) (state (client h) = Connected)],
        store := (if state (client h) = Connected then markSynced (id' msg) (store h)
                  else store h)\<rparr>"
  by (simp add: syncStep_def clientSend_def send_def Let_def)

lemma db_get_markAllSynced:
  "db_get k (db (markAllSynced ms s)) =
     (if k \<in> id' ` set ms
      then map_option (\<lambda>m. m\<lparr>synced := True\<rparr>) (db_get k (db s))
      else db_get k (db s))"
proof (induction ms arbitrary: s)
  case Nil
  then show ?case by simp
next
  case (Cons msg ms)
  show ?case
    using Cons.IH [of "markSynced (id' msg) s"]
    by (cases "db_get k (db s)") (auto simp: db_get_markSynced)
qed

lemma db_get_syncNow:
  "db_get k (db (syncNow isSyncing isOnline s)) =
     (if \<not> isSyncing \<and> isOnline \<and> k \<in> id' ` set (getUnsyncedMessages (db s))
      then map_option (\<lambda>m. m\<lparr>synced := True\<rparr>) (db_get k (db s))
      else db_get k (db s))"
  by (simp add: syncNow_def getUnsynced_def Let_def db_get_markAllSynced)

subsection \<open>Claim C7\<close>

text \<open>
  C7 reads: on every connection-state transition to \<open>connected\<close> every persisted
  envelope with \<open>synced:false\<close> is retransmitted, and an envelope is marked synced only
  upon a successful transmission acknowledgment. The handler awaits no acknowledgment:
  on the transition, with nothing received, the unsynced envelope \<open>m2\<close> is marked
  synced in the same pass that hands its frame to \<open>client.send\<close>. And \<open>syncNow\<close> of the
  sync hook marks \<open>m2\<close> synced with no send at all.
\<close>

theorem synced_without_acknowledgment:
  "getUnsyncedMessages (db (store aliceOffline)) = [envelope2]
   \<and> trace (connectionTransition Connected aliceOffline)
       = [Callback (OnConnectionChange Connected),
          Send (MessageFrame \<lparr>conversationId_p = ''c1'', senderId_p = ''bob'',
                  recipientId_p = ''alice'', ciphertext_p = ''BBBB'', timestamp_p = 2000\<rparr>) True]
   \<and> db_get ''m2'' (db (store (connectionTransition Connected aliceOffline)))
       = Some (envelope2\<lparr>synced := True\<rparr>)
   \<and> db_get ''m2'' (db storedPair) = Some envelope2
   \<and> db_get ''m2'' (db (syncNow False True storedPair)) = Some (envelope2\<lparr>synced := True\<rparr>)"
proof -
  have f: "getUnsyncedMessages (db (store aliceOffline)) = [envelope2]
      \<and> db_get ''m2'' (db (store aliceOffline)) = Some envelope2
      \<and> trace aliceOffline = [] \<and> onConnectionChange (callbacks aliceOffline)"
    by (simp add: aliceOffline_def aliceHandler_def storedPair_def emptyStore_def
          envelope1_def envelope2_def getUnsyncedMessages_def db_get_def allCallbacks_def)
  have p: "getUnsyncedMessages (db storedPair) = [envelope2]
      \<and> db_get ''m2'' (db storedPair) = Some envelope2"
    by (simp add: storedPair_def emptyStore_def envelope1_def envelope2_def
          getUnsyncedMessages_def db_get_def)
  have e: "conversationId envelope2 = ''c1'' \<and> senderId envelope2 = ''bob''
      \<and> recipientId envelope2 = ''alice'' \<and> ciphertext envelope2 = ''BBBB''
      \<and> timestamp envelope2 = 2000 \<and> id' envelope2 = ''m2''"
    by (simp add: envelope2_def)
  have t: "trace (connectionTransition Connected aliceOffline)
       = [Callback (OnConnectionChange Connected),
          Send (MessageFrame \<lparr>conversationId_p = ''c1'', senderId_p = ''bob'',
                  recipientId_p = ''alice'', ciphertext_p = ''BBBB'', timestamp_p = 2000\<rparr>) True]"
    using f e by (simp add: connectionTransition_Connected syncStep_eq)
  have m: "db_get ''m2'' (db (store (connectionTransition Connected aliceOffline)))
       = Some (envelope2\<lparr>synced := True\<rparr>)"
    using f e by (simp add: connectionTransition_Connected syncStep_eq db_get_markSynced)
  have n: "db_get ''m2'' (db (syncNow False True storedPair)) = Some (envelope2\<lparr>synced := True\<rparr>)"
    using p e by (simp add: db_get_syncNow)
  from f p t m n show ?thesis by blast
qed

text \<open>
  C7 as amended: on a transition of the connection to \<open>connected\<close>, \<open>client.send\<close> is
  called with a \<open>message\<close> frame for every persisted envelope with \<open>synced:false\<close>, in
  the order \<open>getUnsynced\<close> gives them. Each iteration marks its envelope synced at once
  when its own send returned true and leaves the store as it was when it returned
  false; no acknowledgment is awaited. With the pass taken as one step after the
  transition every send returns true, the envelopes under the ids sent are marked and
  every other id is as it was, so that with distinct ids no unsynced envelope is left;
  when the client is not connected the sends return false and the table is unchanged.
  A transition to another state sends nothing. Apart from this path, \<open>syncNow\<close> of the
  sync hook, when online and not already syncing, marks every unsynced envelope synced
  and sends nothing.
\<close>

theorem reconnect_resends_unsynced:
  "trace (connectionTransition Connected h)
     = trace h
       @ (if onConnectionChange (callbacks h) then [Callback (OnConnectionChange Connected)] else [])
       @ map (\<lambda>m. Send (MessageFrame
                 \<lparr>conversationId_p = conversationId m, senderId_p = senderId m,
                  recipientId_p = recipientId m, ciphertext_p = ciphertext m,
                  timestamp_p = timestamp m\<rparr>) True) (getUnsyncedMessages (db (store h)))
   \<and> db_get k (db (store (connectionTransition Connected h)))
     = (if k \<in> id' ` set (getUnsyncedMessages (db (store h)))
        then map_option (\<lambda>m. m\<lparr>synced := True\<rparr>) (db_get k (db (store h)))
        else db_get k (db (store h)))
   \<and> (distinct (map id' (db (store h))) \<longrightarrow>
        getUnsyncedMessages (db (store (connectionTransition Connected h))) = [])
   \<and> (state (client h) \<noteq> Connected \<longrightarrow>
        db (store (syncPendingMessages h)) = db (store h)
        \<and> trace (syncPendingMessages h)
          = trace h @ map (\<lambda>m. Send (MessageFrame
                 \<lparr>conversationId_p = conversationId m, senderId_p = senderId m,
                  recipientId_p = recipientId m, ciphertext_p = ciphertext m,
                  timestamp_p = timestamp m\<rparr>) False) (getUnsyncedMessages (db (store h))))
   \<and> (st \<noteq> Connected \<longrightarrow>
        store (connectionTransition st h) = store h
        \<and> trace (connectionTransition st h)
          = trace h @ (if onConnectionChange (callbacks h)
                       then [Callback (OnConnectionChange st)] else []))
   \<and> syncStep msg h
     = h\<lparr>trace := trace h @ [Send (MessageFrame
                 \<lparr>conversationId_p = conversationId msg, senderId_p = senderId msg,
                  recipientId_p = recipientId msg, ciphertext_p = ciphertext msg,
                  timestamp_p = timestamp msg\<rparr>) (state (client h) = Connected)],
          store := (if state (client h) = Connected then markSynced (id' msg) (store h)
                    else store h)\<rparr>
   \<and> db_get k (db (syncNow isSyncing isOnline s))
     = (if \<not> isSyncing \<and> isOnline \<and> k \<in> id' ` set (getUnsyncedMessages (db s))
        then map_option (\<lambda>m. m\<lparr>synced := True\<rparr>) (db_get k (db s))
        else db_get k (db s))"
proof -
  let ?h0 = "h\<lparr>client := (client h)\<lparr>state := Connected\<rparr>,
          trace := trace h @ (if onConnectionChange (callbacks h)
                              then [Callback (OnConnectionChange Connected)] else []),
          store := init (store h)\<rparr>"
  have a: "trace (connectionTransition Connected h)
     = trace h
       @ (if onConnectionChange (callbacks h) then [Callback (OnConnectionChange Connected)] else [])
       @ map (\<lambda>m. Send (MessageFrame
                 \<lparr>conversationId_p = conversationId m, senderId_p = senderId m,
                  recipientId_p = recipientId m, ciphertext_p = ciphertext m,
                  timestamp_p = timestamp m\<rparr>) True) (getUnsyncedMessages (db (store h)))"
    by (simp add: connectionTransition_Connected syncLoop_trace)
  have b: "db_get k (db (store (connectionTransition Connected h)))
     = (if k \<in> id' ` set (getUnsyncedMessages (db (store h)))
        then map_option (\<lambda>m. m\<lparr>synced := True\<rparr>) (db_get k (db (store h)))
        else db_get k (db (store h)))"
    by (simp add: connectionTransition_Connected syncLoop_db_get)
  have c: "getUnsyncedMessages (db (store (connectionTransition Connected h))) = []"
    if "distinct (map id' (db (store h)))"
    using syncLoop_all_synced [of ?h0] that
    by (simp add: connectionTransition_Connected)
  have d: "db (store (syncPendingMessages h)) = db (store h)
        \<and> trace (syncPendingMessages h)
          = trace h @ map (\<lambda>m. Send (MessageFrame
                 \<lparr>conversationId_p = conversationId m, senderId_p = senderId m,
                  recipientId_p = recipientId m, ciphertext_p = ciphertext m,
                  timestamp_p = timestamp m\<rparr>) False) (getUnsyncedMessages (db (store h)))"
    if "state (client h) \<noteq> Connected"
    using that
    by (simp add: syncPendingMessages_def getUnsynced_def Let_def syncLoop_not_connected
          syncLoop_trace)
  have e: "store (connectionTransition st h) = store h
        \<and> trace (connectionTransition st h)
          = trace h @ (if onConnectionChange (callbacks h)
                       then [Callback (OnConnectionChange st)] else [])"
    if "st \<noteq> Connected"
    using that by (simp add: connectionTransition_def connectionChangeListener_def notify_def)
  note f = syncStep_eq [of msg h]
  note g = db_get_syncNow [of k isSyncing isOnline s]
  from a b c d e f g show ?thesis by blast
qed

theorem reconnect_resends_unsynced_witness:
  "distinct (map id' (db (store aliceOffline)))
   \<and> state (client aliceOffline) \<noteq> Connected
   \<and> Disconnected \<noteq> Connected
   \<and> getUnsyncedMessages (db (store aliceOffline)) = [envelope2]
   \<and> trace (connectionTransition Connected aliceOffline)
       = [Callback (OnConnectionChange Connected),
          Send (MessageFrame \<lparr>conversationId_p = ''c1'', senderId_p = ''bob'',
                  recipientId_p = ''alice'', ciphertext_p = ''BBBB'', timestamp_p = 2000\<rparr>) True]
   \<and> db_get ''m2'' (db (store (connectionTransition Connected aliceOffline)))
       = Some (envelope2\<lparr>synced := True\<rparr>)
   \<and> getUnsyncedMessages (db (store (connectionTransition Connected aliceOffline))) = []
   \<and> db (store (syncPendingMessages aliceOffline)) = db (store aliceOffline)
   \<and> store (connectionTransition Disconnected aliceOffline) = store aliceOffline
   \<and> db_get ''m2'' (db (syncNow False True storedPair)) = Some (envelope2\<lparr>synced := True\<rparr>)"
proof -
  have f: "distinct (map id' (db (store aliceOffline)))
      \<and> state (client aliceOffline) \<noteq> Connected
      \<and> getUnsyncedMessages (db (store aliceOffline)) = [envelope2]
      \<and> db_get ''m2'' (db (store aliceOffline)) = Some envelope2
      \<and> trace aliceOffline = [] \<and> onConnectionChange (callbacks aliceOffline)"
    by (simp add: aliceOffline_def aliceHandler_def storedPair_def emptyStore_def
          envelope1_def envelope2_def getUnsyncedMessages_def db_get_def allCallbacks_def)
  have e: "conversationId envelope2 = ''c1'' \<and> senderId envelope2 = ''bob''
      \<and> recipientId envelope2 = ''alice'' \<and> ciphertext envelope2 = ''BBBB''
      \<and> timestamp envelope2 = 2000 \<and> id' envelope2 = ''m2''"
    by (simp add: envelope2_def)
  have n: "Disconnected \<noteq> Connected" by simp
  have p: "getUnsyncedMessages (db storedPair) = [envelope2]
      \<and> db_get ''m2'' (db storedPair) = Some envelope2"
    by (simp add: storedPair_def emptyStore_def envelope1_def envelope2_def
          getUnsyncedMessages_def db_get_def)
  from reconnect_resends_unsynced [where h = aliceOffline and k = "''m2''" and st = Disconnected
      and isSyncing = False and isOnline = True and s = storedPair] f e n p
  show ?thesis by simp
qed

end
